theory Spec2Isabelle
  imports Main "HOL-Library.Char_ord" "HOL-Library.List_Lexorder"
begin

section \<open>Clocks and the environment of one handler run\<close>

text \<open>
  The JavaScript side reads time as milliseconds since the epoch (\<open>new Date()\<close>); the
  SQLite side stores and compares timestamps as text with a resolution of one second
  (\<open>YYYY-MM-DD HH:MM:SS\<close>) and dates as \<open>YYYY-MM-DD\<close>. A timestamp text is modelled by
  the number of seconds it denotes when it is read as a UTC reading, a date text by its day
  number; on well-formed texts the order of the texts is the order of the numbers.

  Everything the bot asks of its surroundings during one handler run is a field of
  \<open>env\<close>: the clock, the zone of the process (\<open>TZ\<close>), the zone database behind
  \<open>toLocaleString\<close> (\<open>None\<close> for an identifier it rejects with a RangeError), the
  answers of the Telegram API and whether SQLite calls reject. A zone is an offset from UTC
  in minutes, fixed for the run, and a wall clock reads hours from 0 to 23. A string is the
  list of the UTF-8 bytes of the JavaScript or SQLite text.
\<close>

record env =
  now :: int
  utcOffsetMin :: int
  tzOffsetMin :: "string \<Rightarrow> int option"
  channelMember :: "nat \<Rightarrow> bool"
  chatReachable :: "nat \<Rightarrow> bool"
  dbDown :: bool
  admins :: "string list"

definition localMs :: "env \<Rightarrow> int" where
  "localMs e = now e + utcOffsetMin e * 60000"

definition localMidnight :: "env \<Rightarrow> int" where
  \<comment> \<open>\<open>d = new Date(); d.setHours(0, 0, 0, 0)\<close>, as an instant\<close>
  "localMidnight e = (localMs e div 86400000) * 86400000 - utcOffsetMin e * 60000"

definition sqlNow :: "env \<Rightarrow> int" where
  \<comment> \<open>\<open>datetime('now')\<close>, \<open>CURRENT_TIMESTAMP\<close>\<close>
  "sqlNow e = now e div 1000"

definition sqlLocaltime :: "env \<Rightarrow> int \<Rightarrow> int" where
  \<comment> \<open>the modifier \<open>'localtime'\<close>: its argument is taken as UTC and shifted to the zone\<close>
  "sqlLocaltime e t = t + utcOffsetMin e * 60"

definition sqlDate :: "int \<Rightarrow> int" where
  "sqlDate t = t div 86400"

definition sqlToday :: "env \<Rightarrow> int" where
  \<comment> \<open>\<open>date('now', 'localtime')\<close>\<close>
  "sqlToday e = sqlDate (sqlLocaltime e (sqlNow e))"

definition isoToSql :: "int \<Rightarrow> int" where
  \<comment> \<open>\<open>datetime(d.toISOString())\<close>: the UTC reading of a JavaScript instant, to the second\<close>
  "isoToSql ms = ms div 1000"

section \<open>The tables of database.js\<close>

record subscription =
  user_id :: nat
  username :: string
  timezone :: "string option"
  is_on_vacation :: int
  vacation_until :: "int option"

record standup =
  s_user_id :: nat
  s_username :: string
  s_yesterday :: "string option"
  s_today :: "string option"
  s_blockers :: "string option"
  submitted_at :: int

record late_reminder =
  r_user_id :: nat
  sent_at :: int

record job =
  job_id :: nat
  job_hour :: nat
  job_minute :: nat

record response =
  resp_username :: string
  answers :: "string option list"

datatype part =
  Header string
  | YesterdaySection string
  | TodaySection "string option"
  | BlockersSection string
  | SubmittedSection int

datatype content =
  WrongChannel
  | AlreadyOngoing
  | NeedSubscribe
  | StartError
  | Starting
  | Question nat
  | Summary "part list"
  | ThankYou
  | ProcessingError
  | CannotSkip
  | Reminder bool
  | AdminOnly
  | InvalidTime
  | TimeSet nat nat
  | SetTimeError
  | InvalidHours
  | HoursSet nat bool
  | HoursError

datatype dest = Chat nat | Channel

datatype outmsg = Msg dest content

datatype err = DbError | ConstraintError | RangeError

text \<open>
  The whole mutable state of the process: the four tables (the settings table as its four
  typed values), the two in-memory maps of the second source file (\<open>userStates\<close> holds the
  \<open>currentQuestion\<close> of each open session), the messages handed to the transport, oldest
  first, and the scheduler: \<open>global.standupJob\<close>, the live recurring jobs and the pending
  one-shot jobs of node-schedule, each by its fire instant.
\<close>

record world =
  subscriptions :: "subscription list"
  standups :: "standup list"
  late_reminders :: "late_reminder list"
  standup_hour :: nat
  standup_minute :: nat
  late_reminder_enabled :: bool
  late_reminder_hours :: nat
  userStates :: "nat \<rightharpoonup> nat"
  standupResponses :: "nat \<rightharpoonup> response"
  outbox :: "outmsg list"
  standupJob :: "job option"
  cronJobs :: "job list"
  dateJobs :: "int list"
  jobCounter :: nat

definition getSubscriberByUsername :: "world \<Rightarrow> string \<Rightarrow> subscription option" where
  "getSubscriberByUsername w name = find (\<lambda>s. username s = name) (subscriptions w)"

definition getSubscriber :: "world \<Rightarrow> nat \<Rightarrow> subscription option" where
  \<comment> \<open>\<open>dbGet('SELECT ... FROM subscriptions WHERE user_id = ?')\<close>: the first row, if any\<close>
  "getSubscriber w uid = find (\<lambda>s. user_id s = uid) (subscriptions w)"

definition isSubscribed :: "world \<Rightarrow> nat \<Rightarrow> bool" where
  "isSubscribed w uid = (0 < length (filter (\<lambda>s. user_id s = uid) (subscriptions w)))"

definition getAllSubscribers :: "world \<Rightarrow> subscription list" where
  "getAllSubscribers w = sort_key username (subscriptions w)"

definition sqlLess :: "int option \<Rightarrow> int \<Rightarrow> bool" where
  \<comment> \<open>\<open>col < x\<close> in a WHERE clause: a NULL column does not select the row\<close>
  "sqlLess c x = (case c of None \<Rightarrow> False | Some d \<Rightarrow> d < x)"

definition getActiveSubscribers :: "env \<Rightarrow> world \<Rightarrow> subscription list" where
  "getActiveSubscribers e w =
     sort_key username
       (filter (\<lambda>s. is_on_vacation s = 0
                   \<or> (is_on_vacation s = 1 \<and> sqlLess (vacation_until s) (sqlToday e)))
          (subscriptions w))"

definition isAdmin :: "env \<Rightarrow> world \<Rightarrow> nat \<Rightarrow> bool" where
  "isAdmin e w uid =
     (case getSubscriber w uid of
        None \<Rightarrow> False
      | Some s \<Rightarrow> username s \<in> set (admins e))"

definition setStandupTime :: "nat \<Rightarrow> nat \<Rightarrow> world \<Rightarrow> world" where
  "setStandupTime h m w = w\<lparr>standup_hour := h, standup_minute := m\<rparr>"

definition setLateReminderHours :: "nat \<Rightarrow> world \<Rightarrow> world" where
  "setLateReminderHours h w = w\<lparr>late_reminder_hours := h\<rparr>"

definition orDefault :: "string option \<Rightarrow> string \<Rightarrow> string" where
  \<comment> \<open>\<open>v || d\<close> on a value that is a string, null or undefined: the empty string is falsy\<close>
  "orDefault v d = (case v of None \<Rightarrow> d | Some s \<Rightarrow> if s = [] then d else s)"

definition getUserTimezone :: "world \<Rightarrow> nat \<Rightarrow> string" where
  "getUserTimezone w uid =
     (case getSubscriber w uid of
        None \<Rightarrow> ''Europe/Lisbon''
      | Some r \<Rightarrow> orDefault (timezone r) ''Europe/Lisbon'')"

definition todayStandups :: "env \<Rightarrow> world \<Rightarrow> standup list" where
  \<comment> \<open>\<open>WHERE date(submitted_at, 'localtime') = date('now', 'localtime')\<close>\<close>
  "todayStandups e w =
     filter (\<lambda>r. sqlDate (sqlLocaltime e (submitted_at r)) = sqlToday e) (standups w)"

record status =
  st_username :: string
  hasSubmitted :: bool
  isOnVacation :: int
  vacationUntil :: "int option"
  submittedAt :: "int option"

definition getStandupStatus :: "env \<Rightarrow> world \<Rightarrow> status list" where
  "getStandupStatus e w =
     map (\<lambda>sub.
            \<lparr>st_username = username sub,
             hasSubmitted = (user_id sub \<in> s_user_id ` set (todayStandups e w)),
             isOnVacation = is_on_vacation sub,
             vacationUntil = vacation_until sub,
             submittedAt =
               map_option submitted_at
                 (find (\<lambda>r. s_user_id r = user_id sub)
                    (sort_key submitted_at (todayStandups e w)))\<rparr>)
       (sort_key username (subscriptions w))"

definition hasReceivedLateReminderToday :: "env \<Rightarrow> world \<Rightarrow> nat \<Rightarrow> bool" where
  "hasReceivedLateReminderToday e w uid =
     (0 < length (filter (\<lambda>r. r_user_id r = uid
                              \<and> sqlDate (sqlLocaltime e (sent_at r)) = sqlToday e)
                    (late_reminders w)))"

definition recordLateReminder :: "env \<Rightarrow> nat \<Rightarrow> world \<Rightarrow> world" where
  \<comment> \<open>\<open>sent_at\<close> is the column default \<open>CURRENT_TIMESTAMP\<close>\<close>
  "recordLateReminder e uid w =
     w\<lparr>late_reminders := late_reminders w @ [\<lparr>r_user_id = uid, sent_at = sqlNow e\<rparr>]\<rparr>"

definition cleanupOldLateReminders :: "env \<Rightarrow> world \<Rightarrow> world" where
  "cleanupOldLateReminders e w =
     w\<lparr>late_reminders :=
         filter (\<lambda>r. \<not> sqlDate (sqlLocaltime e (sent_at r)) < sqlToday e) (late_reminders w)\<rparr>"

section \<open>The bot: messages, sessions and completion\<close>

text \<open>
  An inbound Telegram message: \<open>msg.from.id\<close>, \<open>msg.chat.id\<close>,
  \<open>msg.from.username || msg.from.first_name\<close> and \<open>msg.text\<close>, which is undefined
  (\<open>None\<close>) for a message without text. A handler is run from its first statement to
  its last on one environment; a handler whose promise rejects returns the error beside the
  state it leaves behind.
\<close>

record message =
  m_from :: nat
  m_chat :: nat
  m_name :: string
  m_text :: "string option"

definition send :: "dest \<Rightarrow> content \<Rightarrow> world \<Rightarrow> world" where
  \<comment> \<open>\<open>bot.sendMessage\<close>: the promise it returns is never awaited\<close>
  "send d c w = w\<lparr>outbox := outbox w @ [Msg d c]\<rparr>"

definition jsSet :: "'a option list \<Rightarrow> nat \<Rightarrow> 'a option \<Rightarrow> 'a option list" where
  \<comment> \<open>\<open>xs[i] = v\<close>: an index past the end extends the array, leaving holes\<close>
  "jsSet xs i v =
     (if i < length xs then xs[i := v] else xs @ replicate (i - length xs) None @ [v])"

definition jsGet :: "'a option list \<Rightarrow> nat \<Rightarrow> 'a option" where
  \<comment> \<open>\<open>xs[i]\<close>: undefined past the end\<close>
  "jsGet xs i = (if i < length xs then xs ! i else None)"

definition addStandup ::
  "env \<Rightarrow> nat \<Rightarrow> string \<Rightarrow> string option \<Rightarrow> string option \<Rightarrow> string option
     \<Rightarrow> world \<Rightarrow> err option \<times> world" where
  \<comment> \<open>the DELETE, then the INSERT; \<open>yesterday\<close> and \<open>today\<close> are NOT NULL columns\<close>
  "addStandup e uid uname y t b w =
     (if dbDown e then (Some DbError, w)
      else
        let today_start = isoToSql (localMidnight e);
            today_end = isoToSql (localMidnight e + 86399999);
            w1 = w\<lparr>standups :=
                    filter (\<lambda>r. \<not> (s_user_id r = uid
                                    \<and> today_start \<le> submitted_at r
                                    \<and> submitted_at r \<le> today_end))
                      (standups w)\<rparr>
        in if y = None \<or> t = None then (Some ConstraintError, w1)
           else (None,
                 w1\<lparr>standups := standups w1 @
                      [\<lparr>s_user_id = uid, s_username = uname, s_yesterday = y, s_today = t,
                        s_blockers = b, submitted_at = sqlLocaltime e (sqlNow e)\<rparr>]\<rparr>))"

definition spaceTokens :: "string list" where
  \<comment> \<open>the characters \<open>String.prototype.trim\<close> strips (WhiteSpace and LineTerminator), in
      UTF-8: U+0009 to U+000D, U+0020, U+00A0, U+1680, U+2000 to U+200A, U+2028, U+2029,
      U+202F, U+205F, U+3000, U+FEFF\<close>
  "spaceTokens =
     [[CHR 0x09], [CHR 0x0A], [CHR 0x0B], [CHR 0x0C], [CHR 0x0D], [CHR 0x20],
      [CHR 0xC2, CHR 0xA0], [CHR 0xE1, CHR 0x9A, CHR 0x80]]
     @ map (\<lambda>c. [CHR 0xE2, CHR 0x80, c])
         [CHR 0x80, CHR 0x81, CHR 0x82, CHR 0x83, CHR 0x84, CHR 0x85, CHR 0x86, CHR 0x87,
          CHR 0x88, CHR 0x89, CHR 0x8A, CHR 0xA8, CHR 0xA9, CHR 0xAF]
     @ [[CHR 0xE2, CHR 0x81, CHR 0x9F], [CHR 0xE3, CHR 0x80, CHR 0x80],
        [CHR 0xEF, CHR 0xBB, CHR 0xBF]]"

definition isSpaceToken :: "string \<Rightarrow> bool" where
  "isSpaceToken s = (s \<in> set spaceTokens)"

fun trimStart :: "string \<Rightarrow> string" where
  "trimStart (a # b # c # r) =
     (if isSpaceToken [a] then trimStart (b # c # r)
      else if isSpaceToken [a, b] then trimStart (c # r)
      else if isSpaceToken [a, b, c] then trimStart r
      else a # b # c # r)"
| "trimStart [a, b] =
     (if isSpaceToken [a] then trimStart [b]
      else if isSpaceToken [a, b] then []
      else [a, b])"
| "trimStart [a] = (if isSpaceToken [a] then [] else [a])"
| "trimStart [] = []"

fun trimEndRev :: "string \<Rightarrow> string" where
  \<comment> \<open>\<open>trimStart\<close> on the reversed string: the bytes of a character come last byte first\<close>
  "trimEndRev (a # b # c # r) =
     (if isSpaceToken [a] then trimEndRev (b # c # r)
      else if isSpaceToken [b, a] then trimEndRev (c # r)
      else if isSpaceToken [c, b, a] then trimEndRev r
      else a # b # c # r)"
| "trimEndRev [a, b] =
     (if isSpaceToken [a] then trimEndRev [b]
      else if isSpaceToken [b, a] then []
      else [a, b])"
| "trimEndRev [a] = (if isSpaceToken [a] then [] else [a])"
| "trimEndRev [] = []"

definition jsTrim :: "string \<Rightarrow> string" where
  "jsTrim s = rev (trimEndRev (rev (trimStart s)))"

definition partIf :: "(string \<Rightarrow> part) \<Rightarrow> string option \<Rightarrow> part list" where
  \<comment> \<open>\<open>if (a && a.trim()) message += ...\<close>\<close>
  "partIf mk a =
     (case a of
        None \<Rightarrow> []
      | Some s \<Rightarrow> if s \<noteq> [] \<and> jsTrim s \<noteq> [] then [mk s] else [])"

definition formatStandupResponse :: "env \<Rightarrow> response \<Rightarrow> part list" where
  "formatStandupResponse e r =
     [Header (resp_username r)]
     @ partIf YesterdaySection (jsGet (answers r) 0)
     @ [TodaySection (jsGet (answers r) 1)]
     @ partIf BlockersSection (jsGet (answers r) 2)
     @ [SubmittedSection (now e)]"

definition openSession :: "env \<Rightarrow> nat \<Rightarrow> world \<Rightarrow> world" where
  \<comment> \<open>the \<open>.then\<close> of \<open>bot.getChat\<close> in \<open>startUserStandup\<close>: the session is set and the
      starting message sent\<close>
  "openSession e uid w =
     (if chatReachable e uid
      then send (Chat uid) Starting (w\<lparr>userStates := (userStates w)(uid \<mapsto> 0)\<rparr>)
      else w)"

definition askFirst :: "env \<Rightarrow> nat \<Rightarrow> world \<Rightarrow> world" where
  \<comment> \<open>the \<open>.then\<close> of the starting message's send: the first question\<close>
  "askFirst e uid w = (if chatReachable e uid then send (Chat uid) (Question 0) w else w)"

definition startUserStandup :: "env \<Rightarrow> nat \<Rightarrow> world \<Rightarrow> world" where
  \<comment> \<open>both continuations with nothing sent in between, as after \<open>/standup\<close>\<close>
  "startUserStandup e uid w = askFirst e uid (openSession e uid w)"

definition sendReminder :: "env \<Rightarrow> nat \<Rightarrow> bool \<Rightarrow> world \<Rightarrow> world" where
  "sendReminder e uid isLateReminder w =
     (if chatReachable e uid then send (Chat uid) (Reminder isLateReminder) w else w)"

definition commandGuard ::
  "env \<Rightarrow> message \<Rightarrow> (message \<Rightarrow> world \<Rightarrow> err option \<times> world) \<Rightarrow> world
     \<Rightarrow> err option \<times> world" where
  "commandGuard e msg handler w =
     (if \<not> channelMember e (m_from msg)
      then (None, send (Chat (m_chat msg)) WrongChannel w)
      else handler msg w)"

definition standupCommand :: "env \<Rightarrow> message \<Rightarrow> world \<Rightarrow> err option \<times> world" where
  "standupCommand e msg w =
     commandGuard e msg
       (\<lambda>msg w.
          if userStates w (m_from msg) \<noteq> None
          then (None, send (Chat (m_chat msg)) AlreadyOngoing w)
          else if dbDown e then (None, send (Chat (m_chat msg)) StartError w)
          else if \<not> isSubscribed w (m_from msg)
          then (None, send (Chat (m_chat msg)) NeedSubscribe w)
          else (None, startUserStandup e (m_from msg) w))
       w"

definition startsWithSlash :: "string option \<Rightarrow> bool" where
  \<comment> \<open>\<open>msg.text?.startsWith('/')\<close>\<close>
  "startsWithSlash t =
     (case t of None \<Rightarrow> False | Some s \<Rightarrow> (case s of [] \<Rightarrow> False | c # _ \<Rightarrow> c = CHR ''/''))"

definition storeAnswer :: "message \<Rightarrow> string option list \<Rightarrow> nat \<Rightarrow> string option \<Rightarrow> world \<Rightarrow> response" where
  \<comment> \<open>the buffer of the participant, or a fresh one, with slot \<open>cq\<close> written\<close>
  "storeAnswer msg fresh cq v w =
     (let r0 = (case standupResponses w (m_from msg) of
                  Some r \<Rightarrow> r
                | None \<Rightarrow> \<lparr>resp_username = m_name msg, answers = fresh\<rparr>)
      in r0\<lparr>answers := jsSet (answers r0) cq v\<rparr>)"

definition onMessage :: "env \<Rightarrow> message \<Rightarrow> world \<Rightarrow> world" where
  "onMessage e msg w =
     (if startsWithSlash (m_text msg) then w
      else if \<not> channelMember e (m_from msg) then w
      else
        case userStates w (m_from msg) of
          None \<Rightarrow> w
        | Some cq \<Rightarrow>
            let uid = m_from msg;
                chat = Chat (m_chat msg);
                r = storeAnswer msg [] cq (m_text msg) w;
                w1 = w\<lparr>standupResponses := (standupResponses w)(uid \<mapsto> r)\<rparr>
            in if cq < 2
               then send chat (Question (Suc cq))
                      (w1\<lparr>userStates := (userStates w1)(uid \<mapsto> Suc cq)\<rparr>)
               else
                 (case addStandup e uid (resp_username r) (jsGet (answers r) 0)
                         (jsGet (answers r) 1) (jsGet (answers r) 2)
                         (w1\<lparr>userStates := (userStates w1)(uid := None)\<rparr>) of
                    (Some x, w3) \<Rightarrow>
                      (send chat ProcessingError w3)
                        \<lparr>userStates := (userStates w3)(uid := None),
                         standupResponses := (standupResponses w3)(uid := None)\<rparr>
                  | (None, w3) \<Rightarrow>
                      (send chat ThankYou
                         (send Channel (Summary (formatStandupResponse e r)) w3))
                        \<lparr>standupResponses := (standupResponses w3)(uid := None)\<rparr>))"

definition skipCommand :: "env \<Rightarrow> message \<Rightarrow> world \<Rightarrow> err option \<times> world" where
  "skipCommand e msg w =
     commandGuard e msg
       (\<lambda>msg w.
          case userStates w (m_from msg) of
            None \<Rightarrow> (None, w)
          | Some cq \<Rightarrow>
              if cq = 0 \<or> cq = 2
              then
                let uid = m_from msg;
                    chat = Chat (m_chat msg);
                    r = storeAnswer msg [Some [], Some [], Some []] cq (Some []) w;
                    w1 = w\<lparr>standupResponses := (standupResponses w)(uid \<mapsto> r)\<rparr>
                in if cq < 2
                   then (None, send chat (Question (Suc cq))
                                 (w1\<lparr>userStates := (userStates w1)(uid \<mapsto> Suc cq)\<rparr>))
                   else
                     (case addStandup e uid (resp_username r) (jsGet (answers r) 0)
                             (jsGet (answers r) 1) (jsGet (answers r) 2)
                             (w1\<lparr>userStates := (userStates w1)(uid := None)\<rparr>) of
                        (Some x, w3) \<Rightarrow> (Some x, w3)
                      | (None, w3) \<Rightarrow>
                          (None,
                           (send chat ThankYou
                              (send Channel (Summary (formatStandupResponse e r)) w3))
                             \<lparr>standupResponses := (standupResponses w3)(uid := None)\<rparr>))
              else (None, send (Chat (m_chat msg)) CannotSkip w))
       w"

section \<open>The bot: the scheduler\<close>

definition cancelJob :: "job \<Rightarrow> world \<Rightarrow> world" where
  "cancelJob j w = w\<lparr>cronJobs := filter (\<lambda>k. job_id k \<noteq> job_id j) (cronJobs w)\<rparr>"

definition scheduleLateReminders :: "env \<Rightarrow> nat \<Rightarrow> nat \<Rightarrow> world \<Rightarrow> world" where
  \<comment> \<open>a rejected \<open>getLateReminderSettings\<close> is caught and logged\<close>
  "scheduleLateReminders e hour minute w =
     (if dbDown e then w
      else if \<not> late_reminder_enabled w then w
      else
        let reminderTime = localMidnight e + int hour * 3600000 + int minute * 60000;
            lateReminderTime = reminderTime + int (late_reminder_hours w) * 60 * 60 * 1000
        in if now e < lateReminderTime
           then w\<lparr>dateJobs := dateJobs w @ [lateReminderTime]\<rparr>
           else w)"

definition lateStep :: "env \<Rightarrow> status \<Rightarrow> world \<Rightarrow> world" where
  "lateStep e u w =
     (case getSubscriberByUsername w (st_username u) of
        None \<Rightarrow> w
      | Some sub \<Rightarrow>
          if hasReceivedLateReminderToday e w (user_id sub) then w
          else recordLateReminder e (user_id sub) (sendReminder e (user_id sub) True w))"

fun lateLoop :: "env \<Rightarrow> status list \<Rightarrow> world \<Rightarrow> world" where
  "lateLoop e [] w = w"
| "lateLoop e (u # us) w = lateLoop e us (lateStep e u w)"

definition missingStandups :: "env \<Rightarrow> world \<Rightarrow> status list" where
  \<comment> \<open>\<open>status.filter((s) => !s.hasSubmitted && !s.isOnVacation)\<close>\<close>
  "missingStandups e w =
     filter (\<lambda>s. \<not> hasSubmitted s \<and> isOnVacation s = 0) (getStandupStatus e w)"

text \<open>
  The callback of the one-shot job awaits every database call and the reminder, so each of
  them is a turn of its own, and the turns of two callbacks that are live at once interleave.
  A \<open>lateTask\<close> is a callback between two turns: the call it is waiting for and what is left
  of its loop; a rejected database call ends it. A schedule names, turn by turn, the callback
  that runs next.
\<close>

datatype lateTask =
  AtCleanup
  | AtStatus
  | AtLookup "status list"
  | AtCheck subscription "status list"
  | AtSend subscription "status list"
  | AtRecord subscription "status list"
  | Finished

fun lateTaskStep :: "env \<Rightarrow> lateTask \<Rightarrow> world \<Rightarrow> lateTask \<times> world" where
  "lateTaskStep e AtCleanup w =
     (if dbDown e then (Finished, w) else (AtStatus, cleanupOldLateReminders e w))"
| "lateTaskStep e AtStatus w =
     (if dbDown e then (Finished, w) else (AtLookup (missingStandups e w), w))"
| "lateTaskStep e (AtLookup []) w = (Finished, w)"
| "lateTaskStep e (AtLookup (u # us)) w =
     (if dbDown e then (Finished, w)
      else case getSubscriberByUsername w (st_username u) of
             None \<Rightarrow> (AtLookup us, w)
           | Some sub \<Rightarrow> (AtCheck sub us, w))"
| "lateTaskStep e (AtCheck sub us) w =
     (if dbDown e then (Finished, w)
      else if hasReceivedLateReminderToday e w (user_id sub) then (AtLookup us, w)
      else (AtSend sub us, w))"
| "lateTaskStep e (AtSend sub us) w = (AtRecord sub us, sendReminder e (user_id sub) True w)"
| "lateTaskStep e (AtRecord sub us) w =
     (if dbDown e then (Finished, w)
      else (AtLookup us, recordLateReminder e (user_id sub) w))"
| "lateTaskStep e Finished w = (Finished, w)"

fun runLateChecks :: "env \<Rightarrow> nat list \<Rightarrow> lateTask list \<Rightarrow> world \<Rightarrow> lateTask list \<times> world" where
  "runLateChecks e [] ts w = (ts, w)"
| "runLateChecks e (i # sched) ts w =
     (if i < length ts
      then (case lateTaskStep e (ts ! i) w of
              (t, w') \<Rightarrow> runLateChecks e sched (ts[i := t]) w')
      else runLateChecks e sched ts w)"

definition startLateChecks :: "env \<Rightarrow> world \<Rightarrow> lateTask list \<times> world" where
  \<comment> \<open>node-schedule starts the callback of every one-shot job that is due\<close>
  "startLateChecks e w =
     (map (\<lambda>t. AtCleanup) (filter (\<lambda>t. t \<le> now e) (dateJobs w)),
      w\<lparr>dateJobs := filter (\<lambda>t. \<not> t \<le> now e) (dateJobs w)\<rparr>)"

definition lateReminderJob :: "env \<Rightarrow> world \<Rightarrow> world" where
  \<comment> \<open>one callback from its first turn to its last with no other turn in between\<close>
  "lateReminderJob e w =
     (if dbDown e then w
      else
        let w1 = cleanupOldLateReminders e w
        in lateLoop e (missingStandups e w1) w1)"

text \<open>
  The loop of the recurring job awaits nothing: for a matching subscriber it calls
  \<open>startUserStandup\<close> and \<open>sendReminder\<close>, which each ask Telegram for the chat and
  return. The answers come back in the order of the requests: the session is opened and the
  starting message sent, then the reminder; the first question follows the starting
  message's own send, after the loop's requests have been answered.
\<close>

fun standupLoop :: "env \<Rightarrow> nat \<Rightarrow> nat \<Rightarrow> subscription list \<Rightarrow> world \<Rightarrow> world" where
  "standupLoop e hour minute [] w = w"
| "standupLoop e hour minute (s # ss) w =
     (case tzOffsetMin e (orDefault (timezone s) ''Europe/Lisbon'') of
        None \<Rightarrow> w \<comment> \<open>the RangeError leaves the loop for the \<open>catch\<close> of the callback\<close>
      | Some off \<Rightarrow>
          let t = now e + off * 60000;
              userHour = (t div 3600000) mod 24;
              userMinute = (t div 60000) mod 60
          in standupLoop e hour minute ss
               (if userHour = int hour \<and> userMinute = int minute
                then sendReminder e (user_id s) False (openSession e (user_id s) w)
                else w))"

fun matchedIds :: "env \<Rightarrow> nat \<Rightarrow> nat \<Rightarrow> subscription list \<Rightarrow> nat list" where
  \<comment> \<open>the subscribers the loop has called \<open>startUserStandup\<close> for when it ends\<close>
  "matchedIds e hour minute [] = []"
| "matchedIds e hour minute (s # ss) =
     (case tzOffsetMin e (orDefault (timezone s) ''Europe/Lisbon'') of
        None \<Rightarrow> []
      | Some off \<Rightarrow>
          let t = now e + off * 60000;
              userHour = (t div 3600000) mod 24;
              userMinute = (t div 60000) mod 60
          in (if userHour = int hour \<and> userMinute = int minute then [user_id s] else [])
             @ matchedIds e hour minute ss)"

definition standupJobRun :: "env \<Rightarrow> job \<Rightarrow> world \<Rightarrow> world" where
  \<comment> \<open>the callback of the recurring job, with the \<open>hour\<close> and \<open>minute\<close> it captured\<close>
  "standupJobRun e j w =
     (if dbDown e then w
      else
        let subscribers = getActiveSubscribers e w;
            w1 = scheduleLateReminders e (job_hour j) (job_minute j) w;
            w2 = standupLoop e (job_hour j) (job_minute j) subscribers w1
        in fold (askFirst e) (matchedIds e (job_hour j) (job_minute j) subscribers) w2)"

definition cronFires :: "env \<Rightarrow> job \<Rightarrow> bool" where
  \<comment> \<open>the rule \<open>`${minute} ${hour} * * 1-5`\<close>, read in the zone of the process; day 0 of the
      epoch was a Thursday\<close>
  "cronFires e j =
     (let t = localMs e; dow = (t div 86400000 + 4) mod 7
      in 1 \<le> dow \<and> dow \<le> 5
         \<and> (t div 3600000) mod 24 = int (job_hour j)
         \<and> (t div 60000) mod 60 = int (job_minute j))"

definition schedulerTick :: "env \<Rightarrow> world \<Rightarrow> world" where
  \<comment> \<open>one minute of node-schedule: every live recurring job whose rule matches runs\<close>
  "schedulerTick e w =
     fold (\<lambda>j w. if cronFires e j then standupJobRun e j w else w) (cronJobs w) w"

text \<open>
  \<open>scheduleStandups\<close> runs in two turns of the event loop. A call cancels the job that
  \<open>global.standupJob\<close> holds and asks the database for the stored time; the continuation,
  once the time has been read, installs the new job and stores it in \<open>global.standupJob\<close>.
  \<open>initialize\<close> awaits the call, and nothing runs in between; the \<open>/set_time\<close> handler
  does not await it, so the handler ends after the first turn.
\<close>

definition scheduleStandupsBegin :: "world \<Rightarrow> world" where
  "scheduleStandupsBegin w = (case standupJob w of None \<Rightarrow> w | Some j \<Rightarrow> cancelJob j w)"

definition scheduleStandupsFinish :: "env \<Rightarrow> world \<Rightarrow> err option \<times> world" where
  "scheduleStandupsFinish e w =
     (if dbDown e then (Some DbError, w)
      else
        let j = \<lparr>job_id = jobCounter w, job_hour = standup_hour w,
                 job_minute = standup_minute w\<rparr>
        in (None, w\<lparr>standupJob := Some j, cronJobs := cronJobs w @ [j],
                     jobCounter := Suc (jobCounter w)\<rparr>))"

definition scheduleStandups :: "env \<Rightarrow> world \<Rightarrow> err option \<times> world" where
  "scheduleStandups e w = scheduleStandupsFinish e (scheduleStandupsBegin w)"

definition setTimeCommand ::
  "env \<Rightarrow> message \<Rightarrow> nat \<Rightarrow> nat \<Rightarrow> world \<Rightarrow> err option \<times> world" where
  \<comment> \<open>\<open>hour\<close> and \<open>minute\<close> as parsed from the command's argument; the handler ends with
      the first turn of \<open>scheduleStandups\<close> and the confirmation, and
      \<open>scheduleStandupsFinish\<close> runs later\<close>
  "setTimeCommand e msg hour minute w =
     commandGuard e msg
       (\<lambda>msg w.
          if dbDown e then (None, send (Chat (m_chat msg)) SetTimeError w)
          else if \<not> isAdmin e w (m_from msg) then (None, send (Chat (m_chat msg)) AdminOnly w)
          else if 23 < hour \<or> 59 < minute then (None, send (Chat (m_chat msg)) InvalidTime w)
          else (None, send (Chat (m_chat msg)) (TimeSet hour minute)
                        (scheduleStandupsBegin (setStandupTime hour minute w))))
       w"

definition lateReminderHoursCommand ::
  "env \<Rightarrow> message \<Rightarrow> nat \<Rightarrow> world \<Rightarrow> err option \<times> world" where
  "lateReminderHoursCommand e msg hours w =
     commandGuard e msg
       (\<lambda>msg w.
          if dbDown e then (None, send (Chat (m_chat msg)) HoursError w)
          else if \<not> isAdmin e w (m_from msg) then (None, send (Chat (m_chat msg)) AdminOnly w)
          else if hours < 1 \<or> 12 < hours then (None, send (Chat (m_chat msg)) InvalidHours w)
          else
            let w1 = setLateReminderHours hours w
            in (None, send (Chat (m_chat msg)) (HoursSet hours (late_reminder_enabled w1)) w1))
       w"

section \<open>Concrete inputs\<close>

text \<open>
  The inputs at which the theorems below are evaluated: a zone database with Lisbon at
  UTC+0 and New York at UTC-5 (as in winter), a database as \<open>initializeDatabase\<close> leaves
  it (standups at 09:00, late reminders on, four hours later), an environment in which every
  call succeeds, and one participant.
\<close>

definition zones :: "string \<Rightarrow> int option" where
  "zones z =
     (if z = ''Europe/Lisbon'' then Some 0
      else if z = ''America/New_York'' then Some (- 300)
      else None)"

definition emptyWorld :: world where
  "emptyWorld =
     \<lparr>subscriptions = [], standups = [], late_reminders = [],
      standup_hour = 9, standup_minute = 0,
      late_reminder_enabled = True, late_reminder_hours = 4,
      userStates = Map.empty, standupResponses = Map.empty, outbox = [],
      standupJob = None, cronJobs = [], dateJobs = [], jobCounter = 0\<rparr>"

definition envAt :: "int \<Rightarrow> int \<Rightarrow> env" where
  \<comment> \<open>the instant \<open>t\<close> on a host whose zone is \<open>off\<close> minutes east of UTC\<close>
  "envAt t off =
     \<lparr>now = t, utcOffsetMin = off, tzOffsetMin = zones,
      channelMember = (\<lambda>u. True), chatReachable = (\<lambda>u. True), dbDown = False,
      admins = [''nora'']\<rparr>"

definition nora :: subscription where
  "nora = \<lparr>user_id = 7, username = ''nora'', timezone = None,
            is_on_vacation = 0, vacation_until = None\<rparr>"

definition fromNora :: "string option \<Rightarrow> message" where
  "fromNora t = \<lparr>m_from = 7, m_chat = 7, m_name = ''nora'', m_text = t\<rparr>"

definition session :: "nat \<Rightarrow> string option list \<Rightarrow> world" where
  \<comment> \<open>nora's interview open at question \<open>cq\<close> with the answers \<open>as\<close> collected\<close>
  "session cq as =
     emptyWorld\<lparr>subscriptions := [nora], userStates := [7 \<mapsto> cq],
                standupResponses := [7 \<mapsto> \<lparr>resp_username = ''nora'', answers = as\<rparr>]\<rparr>"

definition installed :: world where
  \<comment> \<open>nora subscribed, after \<open>initialize\<close> has scheduled the standups\<close>
  "installed = snd (scheduleStandups (envAt 0 0) (emptyWorld\<lparr>subscriptions := [nora]\<rparr>))"

definition pendingLate :: world where
  \<comment> \<open>after the recurring job has fired on Wednesday 2024-01-03 at 09:00 UTC\<close>
  "pendingLate = schedulerTick (envAt 1704272400000 0) installed"

definition noraNY :: subscription where
  \<comment> \<open>nora after \<open>/timezone America/New_York\<close>\<close>
  "noraNY = nora\<lparr>timezone := Some ''America/New_York''\<rparr>"

definition installedNY :: world where
  "installedNY = snd (scheduleStandups (envAt 0 0) (emptyWorld\<lparr>subscriptions := [noraNY]\<rparr>))"

definition expired :: subscription where
  \<comment> \<open>nora's vacation ended on day 19700 (2023-12-09) and \<open>/back\<close> was never sent\<close>
  "expired = nora\<lparr>is_on_vacation := 1, vacation_until := Some 19700\<rparr>"

definition midInterview :: world where
  \<comment> \<open>nora has answered the first question of an interview she started with \<open>/standup\<close>\<close>
  "midInterview =
     installed\<lparr>userStates := [7 \<mapsto> 1],
               standupResponses :=
                 [7 \<mapsto> \<lparr>resp_username = ''nora'', answers = [Some ''rest'']\<rparr>]\<rparr>"

definition firstEvening :: world where
  \<comment> \<open>a first completion on 2024-06-03 at 23:30 on a host at UTC+1 (Lisbon in summer)\<close>
  "firstEvening =
     snd (addStandup (envAt 1717453800000 60) 7 ''nora''
            (Some ''rest'') (Some ''work'') (Some ''none'')
            (emptyWorld\<lparr>subscriptions := [nora]\<rparr>))"

definition secondEvening :: world where
  \<comment> \<open>a second completion the same evening at 23:45\<close>
  "secondEvening =
     snd (addStandup (envAt 1717454700000 60) 7 ''nora''
            (Some ''rest'') (Some ''more work'') (Some ''none'') firstEvening)"

definition photoAtToday :: world where
  \<comment> \<open>after the trigger nora answers the first question with text and the second with a
      photo, a message without text\<close>
  "photoAtToday =
     onMessage (envAt 1704272460000 0) (fromNora None)
       (onMessage (envAt 1704272430000 0) (fromNora (Some ''rest'')) pendingLate)"

definition retimed :: world where
  \<comment> \<open>after the trigger of 09:00 nora, an administrator, moves the standup to 10:00 (at 09:30,
      the rescheduling running to its end) and sets the delay to 3 hours (at 09:31)\<close>
  "retimed =
     snd (lateReminderHoursCommand (envAt 1704274260000 0) (fromNora None) 3
       (snd (scheduleStandupsFinish (envAt 1704274200000 0)
         (snd (setTimeCommand (envAt 1704274200000 0) (fromNora None) 10 0 pendingLate)))))"

definition twoChecksPending :: world where
  \<comment> \<open>and the recurring job has fired again at 10:00\<close>
  "twoChecksPending = schedulerTick (envAt 1704276000000 0) retimed"

definition lockstep :: "nat list" where
  \<comment> \<open>two callbacks started together, their awaited calls answered in the order issued\<close>
  "lockstep = [0, 1, 0, 1, 0, 1, 0, 1, 0, 1, 0, 1, 0, 1]"

definition inTurn :: "nat list" where
  \<comment> \<open>the second callback runs after the first has ended\<close>
  "inTurn = [0, 0, 0, 0, 0, 0, 0, 1, 1, 1, 1, 1, 1, 1]"

definition raced :: world where
  \<comment> \<open>two \<open>/set_time\<close> commands whose handlers both end before either rescheduling continues\<close>
  "raced =
     snd (scheduleStandupsFinish (envAt 1704276000700 0)
       (snd (scheduleStandupsFinish (envAt 1704276000600 0)
         (snd (setTimeCommand (envAt 1704276000100 0) (fromNora None) 11 0
           (snd (setTimeCommand (envAt 1704276000000 0) (fromNora None) 10 30
                  pendingLate)))))))"

section \<open>What the theorems count\<close>

definition lateRemindersSent :: "nat \<Rightarrow> world \<Rightarrow> nat" where
  \<comment> \<open>the late reminders handed to the transport for a participant\<close>
  "lateRemindersSent uid w = count_list (outbox w) (Msg (Chat uid) (Reminder True))"

definition recordsToday :: "env \<Rightarrow> nat \<Rightarrow> world \<Rightarrow> nat" where
  \<comment> \<open>the rows of \<open>late_reminders\<close> of a participant whose local date is today's\<close>
  "recordsToday e uid w =
     length (filter (\<lambda>r. r_user_id r = uid
                         \<and> sqlDate (sqlLocaltime e (sent_at r)) = sqlToday e)
               (late_reminders w))"

definition debounced :: "env \<Rightarrow> nat \<Rightarrow> world \<Rightarrow> world \<Rightarrow> bool" where
  \<comment> \<open>from \<open>w\<close> to \<open>w'\<close> every late reminder sent came with a new record of today, and a
      record was added only where there was none\<close>
  "debounced e uid w w' =
     (lateRemindersSent uid w \<le> lateRemindersSent uid w'
      \<and> recordsToday e uid w \<le> recordsToday e uid w'
      \<and> lateRemindersSent uid w' + recordsToday e uid w
          \<le> lateRemindersSent uid w + recordsToday e uid w'
      \<and> recordsToday e uid w' \<le> max 1 (recordsToday e uid w))"

definition localTimeIs :: "env \<Rightarrow> subscription \<Rightarrow> nat \<Rightarrow> nat \<Rightarrow> bool" where
  \<comment> \<open>the wall clock of the subscriber's zone reads \<open>hour:minute\<close>\<close>
  "localTimeIs e s hour minute =
     (case tzOffsetMin e (orDefault (timezone s) ''Europe/Lisbon'') of
        None \<Rightarrow> False
      | Some off \<Rightarrow>
          ((now e + off * 60000) div 3600000) mod 24 = int hour
          \<and> ((now e + off * 60000) div 60000) mod 60 = int minute)"

definition jobsOwned :: "world \<Rightarrow> bool" where
  \<comment> \<open>no recurring job is live but the one \<open>global.standupJob\<close> holds\<close>
  "jobsOwned w =
     (case standupJob w of
        None \<Rightarrow> cronJobs w = []
      | Some j \<Rightarrow> cronJobs w = [j] \<or> cronJobs w = [])"


section \<open>Theorems\<close>

subsection \<open>Helper facts\<close>

lemma jsGet_jsSet: "jsGet (jsSet xs i v) i = v"
  by (simp add: jsGet_def jsSet_def nth_append)

lemma storeAnswer_slot: "jsGet (answers (storeAnswer msg fresh cq v w)) cq = v"
  by (simp add: storeAnswer_def Let_def jsGet_jsSet)

lemma addStandup_userStates: "userStates (snd (addStandup e uid n y t b w)) = userStates w"
  by (simp add: addStandup_def Let_def)

lemma addStandup_responses:
  "standupResponses (snd (addStandup e uid n y t b w)) = standupResponses w"
  by (simp add: addStandup_def Let_def)

lemma addStandup_outbox: "outbox (snd (addStandup e uid n y t b w)) = outbox w"
  by (simp add: addStandup_def Let_def)

lemma addStandup_ok_last:
  "fst (addStandup e uid n y t b w) = None \<Longrightarrow>
     standups (snd (addStandup e uid n y t b w)) \<noteq> [] \<and>
     s_user_id (last (standups (snd (addStandup e uid n y t b w)))) = uid \<and>
     s_yesterday (last (standups (snd (addStandup e uid n y t b w)))) = y \<and>
     s_today (last (standups (snd (addStandup e uid n y t b w)))) = t \<and>
     s_blockers (last (standups (snd (addStandup e uid n y t b w)))) = b"
  by (auto simp add: addStandup_def Let_def split: if_splits)

lemma getSubscriber_None_iff:
  "getSubscriber w uid = None \<longleftrightarrow> uid \<notin> user_id ` set (subscriptions w)"
  by (auto simp add: getSubscriber_def find_None_iff)

lemma filter_absorb:
  "(\<And>x. P x \<Longrightarrow> Q x) \<Longrightarrow> filter P (filter Q xs) = filter P xs"
  by (induction xs) auto

lemma clock_split:
  fixes t :: int
  shows "t = (t div 86400000) * 86400000 + ((t div 3600000) mod 24) * 3600000
             + ((t div 60000) mod 60) * 60000 + t mod 60000"
proof -
  have a: "t div 3600000 = (t div 60000) div 60"
    by (simp add: div_mult2_eq [symmetric])
  have b: "t div 86400000 = (t div 3600000) div 24"
    by (simp add: div_mult2_eq [symmetric])
  have 1: "t = (t div 60000) * 60000 + t mod 60000" by simp
  have 2: "t div 60000 = ((t div 60000) div 60) * 60 + (t div 60000) mod 60" by simp
  have 3: "t div 3600000 = ((t div 3600000) div 24) * 24 + (t div 3600000) mod 24" by simp
  show ?thesis using 1 2 3 a b by linarith
qed

lemma cron_before_late:
  assumes "cronFires e j" "0 < h"
  shows "now e < localMidnight e + int (job_hour j) * 3600000 + int (job_minute j) * 60000
                  + int h * 60 * 60 * 1000"
proof -
  let ?t = "localMs e"
  from assms(1) have hh: "(?t div 3600000) mod 24 = int (job_hour j)"
    and mm: "(?t div 60000) mod 60 = int (job_minute j)"
    by (simp_all add: cronFires_def Let_def)
  have "?t mod 60000 < 60000" by simp
  moreover have "int h \<ge> 1" using assms(2) by simp
  ultimately show ?thesis
    using clock_split [of ?t] hh mm
    by (simp add: localMidnight_def localMs_def)
qed

lemma standupLoop_dateJobs: "dateJobs (standupLoop e h m ss w) = dateJobs w"
  by (induction ss arbitrary: w)
    (simp_all add: Let_def openSession_def sendReminder_def send_def split: option.splits)

lemma askFirst_dateJobs: "dateJobs (fold (askFirst e) us w) = dateJobs w"
  by (induction us arbitrary: w) (simp_all add: askFirst_def send_def)

lemma askFirst_userStates: "userStates (fold (askFirst e) us w) = userStates w"
  by (induction us arbitrary: w) (simp_all add: askFirst_def send_def)

lemma installed_eq:
  "installed = emptyWorld\<lparr>subscriptions := [nora],
     standupJob := Some \<lparr>job_id = 0, job_hour = 9, job_minute = 0\<rparr>,
     cronJobs := [\<lparr>job_id = 0, job_hour = 9, job_minute = 0\<rparr>], jobCounter := 1\<rparr>"
  by (simp add: installed_def scheduleStandups_def scheduleStandupsBegin_def
      scheduleStandupsFinish_def envAt_def emptyWorld_def Let_def)

lemma active_nora: "getActiveSubscribers e installed = [nora]"
  by (simp add: installed_eq getActiveSubscribers_def emptyWorld_def nora_def)

lemma pendingLate_eq:
  "pendingLate = installed\<lparr>userStates := [7 \<mapsto> 0],
     outbox := [Msg (Chat 7) Starting, Msg (Chat 7) (Reminder False), Msg (Chat 7) (Question 0)],
     dateJobs := [1704286800000]\<rparr>"
  unfolding pendingLate_def schedulerTick_def
  apply (simp add: installed_eq [THEN arg_cong, of cronJobs])
  apply (simp add: cronFires_def localMs_def envAt_def standupJobRun_def active_nora Let_def)
  apply (simp add: installed_eq scheduleLateReminders_def localMidnight_def localMs_def
      emptyWorld_def Let_def nora_def orDefault_def zones_def openSession_def askFirst_def
      sendReminder_def send_def)
  done

lemma photoAtToday_eq:
  "photoAtToday = pendingLate\<lparr>userStates := [7 \<mapsto> 2],
      standupResponses :=
        [7 \<mapsto> \<lparr>resp_username = ''nora'', answers = [Some ''rest'', None]\<rparr>],
      outbox := outbox pendingLate @ [Msg (Chat 7) (Question 1), Msg (Chat 7) (Question 2)]\<rparr>"
  by (simp add: photoAtToday_def pendingLate_eq installed_eq emptyWorld_def onMessage_def
      envAt_def fromNora_def startsWithSlash_def storeAnswer_def jsSet_def Let_def send_def
      numeral_2_eq_2)

lemma installedNY_eq:
  "installedNY = emptyWorld\<lparr>subscriptions := [noraNY],
     standupJob := Some \<lparr>job_id = 0, job_hour = 9, job_minute = 0\<rparr>,
     cronJobs := [\<lparr>job_id = 0, job_hour = 9, job_minute = 0\<rparr>], jobCounter := 1\<rparr>"
  by (simp add: installedNY_def scheduleStandups_def scheduleStandupsBegin_def
      scheduleStandupsFinish_def envAt_def emptyWorld_def Let_def)

lemma active_noraNY: "getActiveSubscribers e installedNY = [noraNY]"
  by (simp add: installedNY_eq getActiveSubscribers_def emptyWorld_def noraNY_def nora_def)

lemma fold_idle:
  "(\<And>j. j \<in> set js \<Longrightarrow> \<not> cronFires e j) \<Longrightarrow>
     fold (\<lambda>j w. if cronFires e j then standupJobRun e j w else w) js w = w"
  by (induction js arbitrary: w) simp_all

lemma schedulerTick_idle:
  "(\<And>j. j \<in> set (cronJobs w) \<Longrightarrow> \<not> cronFires e j) \<Longrightarrow> schedulerTick e w = w"
  unfolding schedulerTick_def by (rule fold_idle)

lemma cronFires_host_clock:
  "cronFires e j \<Longrightarrow>
     (localMs e div 3600000) mod 24 = int (job_hour j)
     \<and> (localMs e div 60000) mod 60 = int (job_minute j)"
  by (simp add: cronFires_def Let_def)

lemma hasReceived_iff: "hasReceivedLateReminderToday e w uid \<longleftrightarrow> 0 < recordsToday e uid w"
  by (simp add: hasReceivedLateReminderToday_def recordsToday_def)

lemma debounced_refl: "debounced e uid w w"
  by (simp add: debounced_def)

lemma debounced_trans:
  "debounced e uid w w' \<Longrightarrow> debounced e uid w' w'' \<Longrightarrow> debounced e uid w w''"
  by (auto simp add: debounced_def)

lemma debounced_env:
  "utcOffsetMin e2 = utcOffsetMin e1 \<Longrightarrow> sqlToday e2 = sqlToday e1 \<Longrightarrow>
     debounced e2 uid w w' = debounced e1 uid w w'"
  by (simp add: debounced_def recordsToday_def sqlLocaltime_def)

lemma lateStep_debounced: "debounced e uid w (lateStep e u w)"
proof (cases "getSubscriberByUsername w (st_username u)")
  case None
  then show ?thesis by (simp add: lateStep_def debounced_refl)
next
  case (Some sub)
  show ?thesis
  proof (cases "hasReceivedLateReminderToday e w (user_id sub)")
    case True
    with Some show ?thesis by (simp add: lateStep_def debounced_refl)
  next
    case False
    then have z: "recordsToday e (user_id sub) w = 0"
      by (simp add: hasReceived_iff)
    have step: "lateStep e u w
        = recordLateReminder e (user_id sub) (sendReminder e (user_id sub) True w)"
      using Some False by (simp add: lateStep_def)
    show ?thesis
    proof (cases "uid = user_id sub")
      case True
      with z show ?thesis
        by (simp add: step debounced_def lateRemindersSent_def recordsToday_def
            recordLateReminder_def sendReminder_def send_def sqlToday_def)
    next
      case False
      then show ?thesis
        by (simp add: step debounced_def lateRemindersSent_def recordsToday_def
            recordLateReminder_def sendReminder_def send_def)
    qed
  qed
qed

lemma lateLoop_debounced: "debounced e uid w (lateLoop e us w)"
proof (induction us arbitrary: w)
  case Nil
  show ?case by (simp add: debounced_refl)
next
  case (Cons u us)
  show ?case
    using debounced_trans [OF lateStep_debounced Cons.IH] by simp
qed

lemma cleanup_debounced: "debounced e uid w (cleanupOldLateReminders e w)"
proof -
  have "filter (\<lambda>r. r_user_id r = uid \<and> sqlDate (sqlLocaltime e (sent_at r)) = sqlToday e)
          (filter (\<lambda>r. \<not> sqlDate (sqlLocaltime e (sent_at r)) < sqlToday e) (late_reminders w))
        = filter (\<lambda>r. r_user_id r = uid \<and> sqlDate (sqlLocaltime e (sent_at r)) = sqlToday e)
            (late_reminders w)"
    by (rule filter_absorb) simp
  then show ?thesis
    by (simp add: debounced_def cleanupOldLateReminders_def recordsToday_def
        lateRemindersSent_def)
qed

lemma lateReminderJob_debounced: "debounced e uid w (lateReminderJob e w)"
  using debounced_trans [OF cleanup_debounced lateLoop_debounced]
  by (simp add: lateReminderJob_def Let_def debounced_refl)

lemma day_window:
  "(s::int) div 86400 = k \<longleftrightarrow> k * 86400 \<le> s \<and> s \<le> k * 86400 + 86399"
proof
  assume "s div 86400 = k"
  moreover have "s = 86400 * (s div 86400) + s mod 86400" by simp
  moreover have "0 \<le> s mod 86400" "s mod 86400 < 86400" by simp_all
  ultimately show "k * 86400 \<le> s \<and> s \<le> k * 86400 + 86399" by linarith
next
  assume a: "k * 86400 \<le> s \<and> s \<le> k * 86400 + 86399"
  show "s div 86400 = k"
    by (rule int_div_pos_eq [of s 86400 k "s - k * 86400"]) (use a in simp_all)
qed

lemma utc_window:
  assumes "utcOffsetMin e = 0"
  shows "isoToSql (localMidnight e) = sqlDate (sqlNow e) * 86400"
    and "isoToSql (localMidnight e + 86399999) = sqlDate (sqlNow e) * 86400 + 86399"
proof -
  have d: "now e div 86400000 = (now e div 1000) div 86400"
    by (simp add: div_mult2_eq [symmetric])
  have m: "localMidnight e = ((now e div 1000) div 86400) * 86400 * 1000"
    using assms d by (simp add: localMidnight_def localMs_def)
  show "isoToSql (localMidnight e) = sqlDate (sqlNow e) * 86400"
    by (simp add: m isoToSql_def sqlDate_def sqlNow_def)
  have "(((now e div 1000) div 86400) * 86400 * 1000 + 86399999) div 1000
         = ((now e div 1000) div 86400) * 86400 + 86399"
    by (rule int_div_pos_eq [of _ 1000 _ 999]) simp_all
  then show "isoToSql (localMidnight e + 86399999) = sqlDate (sqlNow e) * 86400 + 86399"
    by (simp add: m isoToSql_def sqlDate_def sqlNow_def)
qed

text \<open>
  One callback of the late check run alone, turn after turn, is \<open>lateReminderJob\<close>.
\<close>

lemma solo_turn:
  "runLateChecks e (replicate (Suc n) 0) [t] w
     = runLateChecks e (replicate n 0) [fst (lateTaskStep e t w)] (snd (lateTaskStep e t w))"
  by (simp add: case_prod_beta)

lemma solo_finished: "runLateChecks e (replicate n 0) [Finished] w = ([Finished], w)"
  by (induction n) (simp_all add: case_prod_beta)

lemma solo_loop:
  "\<not> dbDown e \<Longrightarrow> 4 * length us + 1 \<le> n \<Longrightarrow>
     runLateChecks e (replicate n 0) [AtLookup us] w = ([Finished], lateLoop e us w)"
proof (induction us arbitrary: n w)
  case Nil
  then obtain k where n: "n = Suc k" by (cases n) auto
  show ?case by (simp only: n solo_turn) (simp add: solo_finished)
next
  case (Cons u us)
  from Cons.prems(2) obtain n1 where n: "n = Suc n1" and b1: "4 * length us + 4 \<le> n1"
    by (cases n) auto
  show ?case
  proof (cases "getSubscriberByUsername w (st_username u)")
    case None
    have "4 * length us + 1 \<le> n1" using b1 by simp
    from Cons.IH [OF Cons.prems(1) this, of w] None Cons.prems(1) show ?thesis
      by (simp only: n solo_turn) (simp add: lateStep_def)
  next
    case (Some sub)
    from b1 obtain n2 where n1: "n1 = Suc n2" and b2: "4 * length us + 3 \<le> n2"
      by (cases n1) auto
    show ?thesis
    proof (cases "hasReceivedLateReminderToday e w (user_id sub)")
      case True
      have "4 * length us + 1 \<le> n2" using b2 by simp
      from Cons.IH [OF Cons.prems(1) this, of w] Some True Cons.prems(1) show ?thesis
        by (simp only: n n1 solo_turn) (simp add: lateStep_def)
    next
      case False
      from b2 obtain n3 where n2: "n2 = Suc n3" and b3: "4 * length us + 2 \<le> n3"
        by (cases n2) auto
      from b3 obtain n4 where n3: "n3 = Suc n4" and b4: "4 * length us + 1 \<le> n4"
        by (cases n3) auto
      from Cons.IH [OF Cons.prems(1) b4,
          of "recordLateReminder e (user_id sub) (sendReminder e (user_id sub) True w)"]
        Some False Cons.prems(1)
      show ?thesis
        by (simp only: n n1 n2 n3 solo_turn) (simp add: lateStep_def)
    qed
  qed
qed

lemma solo_run_is_lateReminderJob:
  assumes "4 * length (missingStandups e (cleanupOldLateReminders e w)) + 3 \<le> n"
  shows "runLateChecks e (replicate n 0) [AtCleanup] w = ([Finished], lateReminderJob e w)"
proof -
  from assms obtain n1 where n: "n = Suc n1"
    and b1: "4 * length (missingStandups e (cleanupOldLateReminders e w)) + 2 \<le> n1"
    by (cases n) auto
  from b1 obtain n2 where n1: "n1 = Suc n2"
    and b2: "4 * length (missingStandups e (cleanupOldLateReminders e w)) + 1 \<le> n2"
    by (cases n1) auto
  show ?thesis
  proof (cases "dbDown e")
    case True
    then show ?thesis
      by (simp only: n solo_turn) (simp add: solo_finished lateReminderJob_def)
  next
    case False
    from solo_loop [OF False b2, of "cleanupOldLateReminders e w"] False show ?thesis
      by (simp only: n n1 solo_turn) (simp add: lateReminderJob_def Let_def)
  qed
qed

lemma retimed_eq:
  "retimed = pendingLate\<lparr>standup_hour := 10, standup_minute := 0, late_reminder_hours := 3,
     standupJob := Some \<lparr>job_id = 1, job_hour = 10, job_minute = 0\<rparr>,
     cronJobs := [\<lparr>job_id = 1, job_hour = 10, job_minute = 0\<rparr>], jobCounter := 2,
     outbox := outbox pendingLate @ [Msg (Chat 7) (TimeSet 10 0), Msg (Chat 7) (HoursSet 3 True)]\<rparr>"
  by (simp add: retimed_def pendingLate_eq installed_eq emptyWorld_def setTimeCommand_def
      commandGuard_def envAt_def fromNora_def isAdmin_def getSubscriber_def nora_def
      setStandupTime_def scheduleStandupsBegin_def cancelJob_def scheduleStandupsFinish_def
      lateReminderHoursCommand_def setLateReminderHours_def send_def Let_def)

lemma twoChecksPending_eq:
  "twoChecksPending = retimed\<lparr>
     outbox := outbox retimed @ [Msg (Chat 7) Starting, Msg (Chat 7) (Reminder False),
                                 Msg (Chat 7) (Question 0)],
     dateJobs := [1704286800000, 1704286800000]\<rparr>"
proof -
  have c: "cronJobs retimed = [\<lparr>job_id = 1, job_hour = 10, job_minute = 0\<rparr>]"
    by (simp add: retimed_eq)
  have g: "getActiveSubscribers e retimed = [nora]" for e
    by (simp add: retimed_eq pendingLate_eq installed_eq getActiveSubscribers_def emptyWorld_def
        nora_def)
  show ?thesis
    unfolding twoChecksPending_def schedulerTick_def
    apply (simp add: c)
    apply (simp add: cronFires_def localMs_def envAt_def standupJobRun_def g Let_def)
    apply (simp add: retimed_eq pendingLate_eq installed_eq scheduleLateReminders_def
        localMidnight_def localMs_def emptyWorld_def Let_def nora_def orDefault_def zones_def
        openSession_def askFirst_def sendReminder_def send_def)
    done
qed

lemma format_sample:
  "formatStandupResponse e
       \<lparr>resp_username = ''nora'', answers = [Some ''rest'', Some ''work'', Some []]\<rparr>
     = [Header ''nora'', YesterdaySection ''rest'', TodaySection (Some ''work''),
        SubmittedSection (now e)]"
  by (simp add: formatStandupResponse_def partIf_def jsGet_def jsTrim_def isSpaceToken_def
      spaceTokens_def)

subsection \<open>The skip command\<close>

text \<open>
  Claim C4. For a channel member with an open session, where \<open>old\<close> is the participant's
  answer buffer (or the fresh one of three empty answers): \<open>/skip\<close> at question 0
  (AwaitingYesterday) stores the empty answer in slot 0, moves the session to question 1 and
  asks it, and does nothing else; at question 1 (AwaitingToday) it is rejected, the only
  effect being the cannot-skip message; at question 2 (AwaitingBlockers) it stores the empty
  answer in slot 2 and completes the interview: the session is removed and, when the
  database takes the row (it is up, and neither of the first two answers is null), the
  result is exactly the row with empty blockers appended to the participant's other rows,
  the answer buffer removed, and the summary and the thanks sent; when the database refuses,
  the handler ends with that error, the session removed and the empty answer in the buffer.
\<close>

theorem skip_by_state:
  assumes m: "channelMember e (m_from msg)"
    and old: "old = (case standupResponses w (m_from msg) of
                       Some r \<Rightarrow> r
                     | None \<Rightarrow> \<lparr>resp_username = m_name msg,
                                 answers = [Some [], Some [], Some []]\<rparr>)"
  shows "(userStates w (m_from msg) = Some 0 \<longrightarrow>
            skipCommand e msg w
              = (None,
                 w\<lparr>standupResponses :=
                      (standupResponses w)
                        (m_from msg \<mapsto> old\<lparr>answers := jsSet (answers old) 0 (Some [])\<rparr>),
                    userStates := (userStates w)(m_from msg \<mapsto> 1),
                    outbox := outbox w @ [Msg (Chat (m_chat msg)) (Question 1)]\<rparr>)
          \<and> jsGet (jsSet (answers old) 0 (Some [])) 0 = Some [])
       \<and> (userStates w (m_from msg) = Some 1 \<longrightarrow>
            skipCommand e msg w
              = (None, w\<lparr>outbox := outbox w @ [Msg (Chat (m_chat msg)) CannotSkip]\<rparr>))
       \<and> (userStates w (m_from msg) = Some 2 \<longrightarrow>
            jsGet (jsSet (answers old) 2 (Some [])) 2 = Some []
          \<and> (\<not> dbDown e \<and> jsGet (jsSet (answers old) 2 (Some [])) 0 \<noteq> None
                \<and> jsGet (jsSet (answers old) 2 (Some [])) 1 \<noteq> None \<longrightarrow>
              skipCommand e msg w
                = (None,
                   w\<lparr>standups :=
                        filter (\<lambda>r. \<not> (s_user_id r = m_from msg
                                        \<and> isoToSql (localMidnight e) \<le> submitted_at r
                                        \<and> submitted_at r \<le> isoToSql (localMidnight e + 86399999)))
                          (standups w)
                        @ [\<lparr>s_user_id = m_from msg, s_username = resp_username old,
                             s_yesterday = jsGet (jsSet (answers old) 2 (Some [])) 0,
                             s_today = jsGet (jsSet (answers old) 2 (Some [])) 1,
                             s_blockers = Some [],
                             submitted_at = sqlLocaltime e (sqlNow e)\<rparr>],
                      userStates := (userStates w)(m_from msg := None),
                      standupResponses := (standupResponses w)(m_from msg := None),
                      outbox := outbox w @
                        [Msg Channel
                           (Summary (formatStandupResponse e
                              (old\<lparr>answers := jsSet (answers old) 2 (Some [])\<rparr>))),
                         Msg (Chat (m_chat msg)) ThankYou]\<rparr>))
          \<and> (dbDown e \<longrightarrow>
              skipCommand e msg w
                = (Some DbError,
                   w\<lparr>userStates := (userStates w)(m_from msg := None),
                      standupResponses :=
                        (standupResponses w)
                          (m_from msg \<mapsto> old\<lparr>answers := jsSet (answers old) 2 (Some [])\<rparr>)\<rparr>))
          \<and> (\<not> dbDown e \<and> (jsGet (jsSet (answers old) 2 (Some [])) 0 = None
                           \<or> jsGet (jsSet (answers old) 2 (Some [])) 1 = None) \<longrightarrow>
              skipCommand e msg w
                = (Some ConstraintError,
                   w\<lparr>standups :=
                        filter (\<lambda>r. \<not> (s_user_id r = m_from msg
                                        \<and> isoToSql (localMidnight e) \<le> submitted_at r
                                        \<and> submitted_at r \<le> isoToSql (localMidnight e + 86399999)))
                          (standups w),
                      userStates := (userStates w)(m_from msg := None),
                      standupResponses :=
                        (standupResponses w)
                          (m_from msg \<mapsto> old\<lparr>answers := jsSet (answers old) 2 (Some [])\<rparr>)\<rparr>)))"
proof -
  have b: "storeAnswer msg [Some [], Some [], Some []] cq (Some []) w
             = old\<lparr>answers := jsSet (answers old) cq (Some [])\<rparr>" for cq
    by (simp add: storeAnswer_def old Let_def)
  show ?thesis
  proof (intro conjI impI)
    assume s: "userStates w (m_from msg) = Some 0"
    show "skipCommand e msg w
              = (None,
                 w\<lparr>standupResponses :=
                      (standupResponses w)
                        (m_from msg \<mapsto> old\<lparr>answers := jsSet (answers old) 0 (Some [])\<rparr>),
                    userStates := (userStates w)(m_from msg \<mapsto> 1),
                    outbox := outbox w @ [Msg (Chat (m_chat msg)) (Question 1)]\<rparr>)"
      using m s by (simp add: skipCommand_def commandGuard_def Let_def send_def b)
    show "jsGet (jsSet (answers old) 0 (Some [])) 0 = Some []"
      by (rule jsGet_jsSet)
  next
    assume s: "userStates w (m_from msg) = Some 1"
    show "skipCommand e msg w
              = (None, w\<lparr>outbox := outbox w @ [Msg (Chat (m_chat msg)) CannotSkip]\<rparr>)"
      using m s by (simp add: skipCommand_def commandGuard_def send_def)
  next
    assume s: "userStates w (m_from msg) = Some 2"
    show "jsGet (jsSet (answers old) 2 (Some [])) 2 = Some []"
      by (rule jsGet_jsSet)
  next
    assume s: "userStates w (m_from msg) = Some 2"
      and ok: "\<not> dbDown e \<and> jsGet (jsSet (answers old) 2 (Some [])) 0 \<noteq> None
                \<and> jsGet (jsSet (answers old) 2 (Some [])) 1 \<noteq> None"
    have g: "jsGet (jsSet (answers old) 2 (Some [])) 2 = Some []"
      by (rule jsGet_jsSet)
    show "skipCommand e msg w
                = (None,
                   w\<lparr>standups :=
                        filter (\<lambda>r. \<not> (s_user_id r = m_from msg
                                        \<and> isoToSql (localMidnight e) \<le> submitted_at r
                                        \<and> submitted_at r \<le> isoToSql (localMidnight e + 86399999)))
                          (standups w)
                        @ [\<lparr>s_user_id = m_from msg, s_username = resp_username old,
                             s_yesterday = jsGet (jsSet (answers old) 2 (Some [])) 0,
                             s_today = jsGet (jsSet (answers old) 2 (Some [])) 1,
                             s_blockers = Some [],
                             submitted_at = sqlLocaltime e (sqlNow e)\<rparr>],
                      userStates := (userStates w)(m_from msg := None),
                      standupResponses := (standupResponses w)(m_from msg := None),
                      outbox := outbox w @
                        [Msg Channel
                           (Summary (formatStandupResponse e
                              (old\<lparr>answers := jsSet (answers old) 2 (Some [])\<rparr>))),
                         Msg (Chat (m_chat msg)) ThankYou]\<rparr>)"
      using m s ok g
      by (auto simp add: skipCommand_def commandGuard_def Let_def send_def b addStandup_def)
  next
    assume s: "userStates w (m_from msg) = Some 2" and d: "dbDown e"
    show "skipCommand e msg w
                = (Some DbError,
                   w\<lparr>userStates := (userStates w)(m_from msg := None),
                      standupResponses :=
                        (standupResponses w)
                          (m_from msg \<mapsto> old\<lparr>answers := jsSet (answers old) 2 (Some [])\<rparr>)\<rparr>)"
      using m s d
      by (simp add: skipCommand_def commandGuard_def Let_def b addStandup_def)
  next
    assume s: "userStates w (m_from msg) = Some 2"
      and c: "\<not> dbDown e \<and> (jsGet (jsSet (answers old) 2 (Some [])) 0 = None
                           \<or> jsGet (jsSet (answers old) 2 (Some [])) 1 = None)"
    show "skipCommand e msg w
                = (Some ConstraintError,
                   w\<lparr>standups :=
                        filter (\<lambda>r. \<not> (s_user_id r = m_from msg
                                        \<and> isoToSql (localMidnight e) \<le> submitted_at r
                                        \<and> submitted_at r \<le> isoToSql (localMidnight e + 86399999)))
                          (standups w),
                      userStates := (userStates w)(m_from msg := None),
                      standupResponses :=
                        (standupResponses w)
                          (m_from msg \<mapsto> old\<lparr>answers := jsSet (answers old) 2 (Some [])\<rparr>)\<rparr>)"
      using m s c
      by (auto simp add: skipCommand_def commandGuard_def Let_def b addStandup_def)
  qed
qed

theorem skip_by_state_witness:
  "skipCommand (envAt 1704272430000 0) (fromNora (Some ''/skip'')) pendingLate
     = (None,
        pendingLate
          \<lparr>standupResponses :=
             [7 \<mapsto> \<lparr>resp_username = ''nora'', answers = [Some [], Some [], Some []]\<rparr>],
           userStates := [7 \<mapsto> 1],
           outbox := outbox pendingLate @ [Msg (Chat 7) (Question 1)]\<rparr>)
   \<and> skipCommand (envAt 1704272430000 0) (fromNora (Some ''/skip'')) (session 1 [Some ''rest''])
       = (None, (session 1 [Some ''rest''])\<lparr>outbox := [Msg (Chat 7) CannotSkip]\<rparr>)
   \<and> skipCommand (envAt 1704272430000 0) (fromNora (Some ''/skip''))
         (session 2 [Some ''rest'', Some ''work''])
       = (None,
          (session 2 [Some ''rest'', Some ''work''])
            \<lparr>standups :=
               [\<lparr>s_user_id = 7, s_username = ''nora'', s_yesterday = Some ''rest'',
                 s_today = Some ''work'', s_blockers = Some [], submitted_at = 1704272430\<rparr>],
             userStates := Map.empty,
             standupResponses := Map.empty,
             outbox :=
               [Msg Channel
                  (Summary [Header ''nora'', YesterdaySection ''rest'',
                            TodaySection (Some ''work''), SubmittedSection 1704272430000]),
                Msg (Chat 7) ThankYou]\<rparr>)"
proof -
  let ?e = "envAt 1704272430000 0" and ?m = "fromNora (Some ''/skip'')"
  have m: "channelMember ?e (m_from ?m)"
    by (simp add: envAt_def)
  have o0: "\<lparr>resp_username = ''nora'', answers = [Some [], Some [], Some []]\<rparr>
      = (case standupResponses pendingLate (m_from ?m) of
           Some r \<Rightarrow> r
         | None \<Rightarrow> \<lparr>resp_username = m_name ?m, answers = [Some [], Some [], Some []]\<rparr>)"
    by (simp add: pendingLate_eq installed_eq emptyWorld_def fromNora_def)
  have o1: "\<lparr>resp_username = ''nora'', answers = [Some ''rest'']\<rparr>
      = (case standupResponses (session 1 [Some ''rest'']) (m_from ?m) of
           Some r \<Rightarrow> r
         | None \<Rightarrow> \<lparr>resp_username = m_name ?m, answers = [Some [], Some [], Some []]\<rparr>)"
    by (simp add: session_def fromNora_def)
  have o2: "\<lparr>resp_username = ''nora'', answers = [Some ''rest'', Some ''work'']\<rparr>
      = (case standupResponses (session 2 [Some ''rest'', Some ''work'']) (m_from ?m) of
           Some r \<Rightarrow> r
         | None \<Rightarrow> \<lparr>resp_username = m_name ?m, answers = [Some [], Some [], Some []]\<rparr>)"
    by (simp add: session_def fromNora_def)
  have s0: "userStates pendingLate (m_from ?m) = Some 0"
    by (simp add: pendingLate_eq fromNora_def)
  have s1: "userStates (session 1 [Some ''rest'']) (m_from ?m) = Some 1"
    by (simp add: session_def fromNora_def)
  have s2: "userStates (session 2 [Some ''rest'', Some ''work'']) (m_from ?m) = Some 2"
    by (simp add: session_def fromNora_def)
  have a: "skipCommand ?e ?m pendingLate
     = (None,
        pendingLate
          \<lparr>standupResponses :=
             [7 \<mapsto> \<lparr>resp_username = ''nora'', answers = [Some [], Some [], Some []]\<rparr>],
           userStates := [7 \<mapsto> 1],
           outbox := outbox pendingLate @ [Msg (Chat 7) (Question 1)]\<rparr>)"
    using s0 skip_by_state [OF m o0]
    by (simp add: jsSet_def fromNora_def pendingLate_eq installed_eq emptyWorld_def)
  have b: "skipCommand ?e ?m (session 1 [Some ''rest''])
       = (None, (session 1 [Some ''rest''])\<lparr>outbox := [Msg (Chat 7) CannotSkip]\<rparr>)"
    using s1 skip_by_state [OF m o1]
    by (simp add: fromNora_def session_def emptyWorld_def)
  have c: "skipCommand ?e ?m (session 2 [Some ''rest'', Some ''work''])
       = (None,
          (session 2 [Some ''rest'', Some ''work''])
            \<lparr>standups :=
               [\<lparr>s_user_id = 7, s_username = ''nora'', s_yesterday = Some ''rest'',
                 s_today = Some ''work'', s_blockers = Some [], submitted_at = 1704272430\<rparr>],
             userStates := Map.empty,
             standupResponses := Map.empty,
             outbox :=
               [Msg Channel
                  (Summary [Header ''nora'', YesterdaySection ''rest'',
                            TodaySection (Some ''work''), SubmittedSection 1704272430000]),
                Msg (Chat 7) ThankYou]\<rparr>)"
    using s2 skip_by_state [OF m o2]
    by (simp add: jsSet_def jsGet_def fromNora_def session_def emptyWorld_def envAt_def
        sqlLocaltime_def sqlNow_def format_sample)
  show ?thesis
    by (rule conjI [OF a conjI [OF b c]])
qed

subsection \<open>The recurring trigger\<close>

text \<open>
  Claim C1 at a participant in another zone. The trigger is 09:00, the host runs at UTC+0
  and nora's zone is America/New_York (UTC-5). On Wednesday 2024-01-03 at 14:00 UTC nora is
  active, the day is a weekday and her local time is 09:00, the trigger time; the recurring
  job does not fire at that instant and the tick changes nothing: no interview is opened and
  no reminder sent. The job fires at 09:00 UTC, when her local time is 04:00, and she is not
  matched then either.
\<close>

theorem other_zone_not_matched:
  "cronJobs installedNY = [\<lparr>job_id = 0, job_hour = 9, job_minute = 0\<rparr>]
   \<and> getActiveSubscribers (envAt 1704290400000 0) installedNY = [noraNY]
   \<and> (localMs (envAt 1704290400000 0) div 86400000 + 4) mod 7 = 3
   \<and> tzOffsetMin (envAt 1704290400000 0) (orDefault (timezone noraNY) ''Europe/Lisbon'')
       = Some (- 300)
   \<and> ((now (envAt 1704290400000 0) + (- 300) * 60000) div 3600000) mod 24 = 9
   \<and> ((now (envAt 1704290400000 0) + (- 300) * 60000) div 60000) mod 60 = 0
   \<and> schedulerTick (envAt 1704290400000 0) installedNY = installedNY
   \<and> cronFires (envAt 1704272400000 0) \<lparr>job_id = 0, job_hour = 9, job_minute = 0\<rparr>
   \<and> userStates (schedulerTick (envAt 1704272400000 0) installedNY) 7 = None
   \<and> outbox (schedulerTick (envAt 1704272400000 0) installedNY) = []"
proof -
  have a: "schedulerTick (envAt 1704290400000 0) installedNY = installedNY"
    unfolding schedulerTick_def
    apply (simp add: installedNY_eq [THEN arg_cong, of cronJobs])
    apply (simp add: cronFires_def localMs_def envAt_def)
    done
  have b: "schedulerTick (envAt 1704272400000 0) installedNY
        = installedNY\<lparr>dateJobs := [1704286800000]\<rparr>"
    unfolding schedulerTick_def
    apply (simp add: installedNY_eq [THEN arg_cong, of cronJobs])
    apply (simp add: cronFires_def localMs_def envAt_def standupJobRun_def active_noraNY Let_def)
    apply (simp add: installedNY_eq scheduleLateReminders_def localMidnight_def localMs_def
        emptyWorld_def Let_def noraNY_def nora_def orDefault_def zones_def)
    done
  show ?thesis
    apply (simp only: a b)
    apply (simp add: active_noraNY)
    apply (simp add: installedNY_eq emptyWorld_def envAt_def localMs_def noraNY_def nora_def
        orDefault_def zones_def cronFires_def)
    done
qed

text \<open>
  A tick changes the state only when a live recurring job fires, and a job fires only when
  the wall clock of the host reads the time the job was installed for.
\<close>

lemma tick_changes_only_when_fired:
  "schedulerTick e w \<noteq> w \<Longrightarrow> \<exists>j \<in> set (cronJobs w). cronFires e j"
  using schedulerTick_idle [of w e] by blast

text \<open>
  What does hold of every tick: a session is opened (or reset) by the tick only for an active
  subscriber whose local time is the trigger time, and only when the recurring job fires,
  that is on a weekday of the host at the host's trigger minute.
\<close>

lemma start_userStates_other:
  "uid \<noteq> u \<Longrightarrow>
     userStates (sendReminder e u b (openSession e u w)) uid = userStates w uid"
  by (simp add: sendReminder_def openSession_def send_def)

lemma standupLoop_opened_only_if:
  "userStates (standupLoop e h m ss w) uid \<noteq> userStates w uid \<Longrightarrow>
     \<exists>s \<in> set ss. user_id s = uid \<and> localTimeIs e s h m"
proof (induction ss arbitrary: w)
  case Nil
  then show ?case by simp
next
  case (Cons s ss)
  show ?case
  proof (cases "tzOffsetMin e (orDefault (timezone s) ''Europe/Lisbon'')")
    case None
    with Cons.prems show ?thesis by simp
  next
    case (Some off)
    define w' where "w' = (if ((now e + off * 60000) div 3600000) mod 24 = int h
                \<and> ((now e + off * 60000) div 60000) mod 60 = int m
             then sendReminder e (user_id s) False (openSession e (user_id s) w) else w)"
    have loop: "standupLoop e h m (s # ss) w = standupLoop e h m ss w'"
      using Some by (simp add: w'_def Let_def)
    show ?thesis
    proof (cases "userStates (standupLoop e h m ss w') uid = userStates w' uid")
      case False
      from Cons.IH [OF False] show ?thesis by auto
    next
      case True
      with Cons.prems loop have ch: "userStates w' uid \<noteq> userStates w uid" by simp
      then have "localTimeIs e s h m \<and> user_id s = uid"
        using Some start_userStates_other [of uid "user_id s" e False w]
        by (auto simp add: w'_def localTimeIs_def split: if_splits)
      then show ?thesis by auto
    qed
  qed
qed

lemma matched_only_if:
  assumes "cronJobs w = [j]"
    and "userStates (schedulerTick e w) uid \<noteq> userStates w uid"
  shows "cronFires e j
       \<and> (\<exists>s \<in> set (getActiveSubscribers e w).
             user_id s = uid \<and> localTimeIs e s (job_hour j) (job_minute j))"
proof -
  have f: "cronFires e j"
    using assms by (auto simp add: schedulerTick_def split: if_splits)
  then have run: "schedulerTick e w = standupJobRun e j w"
    using assms(1) by (simp add: schedulerTick_def)
  have nd: "\<not> dbDown e"
    using assms(2) run by (auto simp add: standupJobRun_def)
  have "userStates (scheduleLateReminders e (job_hour j) (job_minute j) w) = userStates w"
    by (simp add: scheduleLateReminders_def Let_def)
  then have "userStates (standupLoop e (job_hour j) (job_minute j) (getActiveSubscribers e w)
                 (scheduleLateReminders e (job_hour j) (job_minute j) w)) uid
             \<noteq> userStates (scheduleLateReminders e (job_hour j) (job_minute j) w) uid"
    using assms(2) run nd by (simp add: standupJobRun_def Let_def askFirst_userStates)
  from standupLoop_opened_only_if [OF this] f show ?thesis by simp
qed

text \<open>
  The manual command, for any participant with a live session: the already-ongoing message
  and nothing else.
\<close>

lemma standupCommand_rejects_live_session:
  "channelMember e (m_from msg) \<Longrightarrow> userStates w (m_from msg) = Some cq \<Longrightarrow>
     standupCommand e msg w = (None, send (Chat (m_chat msg)) AlreadyOngoing w)"
  by (simp add: standupCommand_def commandGuard_def)

text \<open>
  Claim C3 at the scheduled trigger. nora has an open interview at question 1 with one
  answer collected. The manual command is rejected with the already-ongoing message and
  changes nothing else. The recurring job, firing at her trigger time, starts an interview
  for her all the same: her session is back at question 0, the messages sent are the start
  of an interview, the reminder and the first question, and none of them is a rejection.
\<close>

theorem scheduled_start_resets_session:
  "userStates midInterview 7 = Some 1
   \<and> standupCommand (envAt 1704272400000 0) (fromNora (Some ''/standup'')) midInterview
       = (None, send (Chat 7) AlreadyOngoing midInterview)
   \<and> userStates (schedulerTick (envAt 1704272400000 0) midInterview) 7 = Some 0
   \<and> standupResponses (schedulerTick (envAt 1704272400000 0) midInterview) 7
       = Some \<lparr>resp_username = ''nora'', answers = [Some ''rest'']\<rparr>
   \<and> outbox (schedulerTick (envAt 1704272400000 0) midInterview)
       = [Msg (Chat 7) Starting, Msg (Chat 7) (Reminder False), Msg (Chat 7) (Question 0)]"
proof -
  have c: "cronJobs midInterview = [\<lparr>job_id = 0, job_hour = 9, job_minute = 0\<rparr>]"
    by (simp add: midInterview_def installed_eq emptyWorld_def)
  have g: "getActiveSubscribers (envAt 1704272400000 0) midInterview = [nora]"
    by (simp add: midInterview_def installed_eq getActiveSubscribers_def emptyWorld_def nora_def)
  have t: "schedulerTick (envAt 1704272400000 0) midInterview
      = midInterview\<lparr>userStates := [7 \<mapsto> 0],
          outbox := [Msg (Chat 7) Starting, Msg (Chat 7) (Reminder False),
                     Msg (Chat 7) (Question 0)],
          dateJobs := [1704286800000]\<rparr>"
    unfolding schedulerTick_def
    apply (simp add: c)
    apply (simp add: cronFires_def localMs_def envAt_def standupJobRun_def
        g [unfolded envAt_def] Let_def)
    apply (simp add: midInterview_def installed_eq scheduleLateReminders_def localMidnight_def
        localMs_def emptyWorld_def Let_def nora_def orDefault_def zones_def
        openSession_def askFirst_def sendReminder_def send_def)
    done
  show ?thesis
    apply (simp only: t)
    apply (simp add: midInterview_def installed_eq emptyWorld_def standupCommand_def
        commandGuard_def envAt_def fromNora_def)
    done
qed

subsection \<open>Vacations that have ended\<close>

text \<open>
  Claim C2 at the late-reminder check. nora's vacation flag is set and her vacation ended on
  day 19700; today is day 19725. She is among the active subscribers the trigger evaluates.
  She has no standup of today and no late-reminder record of today, and yet the
  late-reminder check does not list her as missing and sends her nothing: it reads the
  vacation flag alone.
\<close>

theorem expired_vacation_no_late_reminder:
  "sqlToday (envAt 1704286800000 0) = 19725
   \<and> getActiveSubscribers (envAt 1704286800000 0) (emptyWorld\<lparr>subscriptions := [expired]\<rparr>)
       = [expired]
   \<and> todayStandups (envAt 1704286800000 0) (emptyWorld\<lparr>subscriptions := [expired]\<rparr>) = []
   \<and> recordsToday (envAt 1704286800000 0) 7 (emptyWorld\<lparr>subscriptions := [expired]\<rparr>) = 0
   \<and> missingStandups (envAt 1704286800000 0) (emptyWorld\<lparr>subscriptions := [expired]\<rparr>) = []
   \<and> lateReminderJob (envAt 1704286800000 0) (emptyWorld\<lparr>subscriptions := [expired]\<rparr>)
       = emptyWorld\<lparr>subscriptions := [expired]\<rparr>"
  by (simp add: sqlToday_def sqlNow_def sqlLocaltime_def sqlDate_def envAt_def
      getActiveSubscribers_def sqlLess_def expired_def nora_def emptyWorld_def todayStandups_def
      recordsToday_def missingStandups_def getStandupStatus_def lateReminderJob_def
      cleanupOldLateReminders_def Let_def)

text \<open>
  In general: a subscriber whose flag is set and whose vacation ended before today is among
  the active subscribers, and nobody whose flag is set is ever listed as missing.
\<close>

lemma expired_vacation_is_active:
  "s \<in> set (subscriptions w) \<Longrightarrow> is_on_vacation s = 1 \<Longrightarrow> vacation_until s = Some d \<Longrightarrow>
     d < sqlToday e \<Longrightarrow> s \<in> set (getActiveSubscribers e w)"
  by (simp add: getActiveSubscribers_def sqlLess_def)

lemma flagged_never_missing:
  "u \<in> set (missingStandups e w) \<Longrightarrow>
     \<exists>s \<in> set (subscriptions w). st_username u = username s \<and> is_on_vacation s = 0"
  by (auto simp add: missingStandups_def getStandupStatus_def)

subsection \<open>Completing an interview\<close>

text \<open>
  Claim C5 on a host east of UTC. The host is at UTC+1. nora completes an interview at 23:30
  local time and a second one at 23:45 the same local day (day 19877). The DELETE of the
  second completion covers the stored readings from 23:00:00 of the day before to 22:59:59
  of the day, the first row was stored with the local reading 23:30:00 and stays: the table
  holds two rows of nora for that day, the first completion's and the second's.
\<close>

theorem resubmission_late_evening_keeps_both:
  "localMs (envAt 1717453800000 60) div 86400000 = 19877
   \<and> localMs (envAt 1717454700000 60) div 86400000 = 19877
   \<and> isoToSql (localMidnight (envAt 1717454700000 60)) = 1717369200
   \<and> isoToSql (localMidnight (envAt 1717454700000 60) + 86399999) = 1717455599
   \<and> map s_user_id (standups secondEvening) = [7, 7]
   \<and> map submitted_at (standups secondEvening) = [1717457400, 1717458300]
   \<and> map (\<lambda>r. sqlDate (submitted_at r)) (standups secondEvening) = [19877, 19877]
   \<and> map s_today (standups secondEvening) = [Some ''work'', Some ''more work'']"
  by (simp add: secondEvening_def firstEvening_def addStandup_def envAt_def emptyWorld_def
      localMidnight_def localMs_def isoToSql_def sqlLocaltime_def sqlNow_def sqlDate_def
      Let_def)

text \<open>
  On a host at UTC+0 the window of the DELETE is the local day: after a completion that was
  persisted, the participant's rows of the day are the new row alone.
\<close>

lemma addStandup_supersedes_on_utc_host:
  assumes "utcOffsetMin e = 0" and "fst (addStandup e uid n y t b w) = None"
  shows "filter (\<lambda>r. s_user_id r = uid \<and> sqlDate (submitted_at r) = sqlDate (sqlNow e))
           (standups (snd (addStandup e uid n y t b w)))
         = [\<lparr>s_user_id = uid, s_username = n, s_yesterday = y, s_today = t, s_blockers = b,
              submitted_at = sqlNow e\<rparr>]"
proof -
  let ?k = "sqlDate (sqlNow e)"
  have ok: "\<not> dbDown e" "y \<noteq> None" "t \<noteq> None"
    using assms(2) by (auto simp add: addStandup_def Let_def split: if_splits)
  have gone: "filter (\<lambda>r. s_user_id r = uid \<and> sqlDate (submitted_at r) = ?k)
          (filter (\<lambda>r. \<not> (s_user_id r = uid \<and> ?k * 86400 \<le> submitted_at r
                            \<and> submitted_at r \<le> ?k * 86400 + 86399)) (standups w)) = []"
    by (auto simp add: filter_empty_conv sqlDate_def day_window)
  show ?thesis
    using ok gone
    by (simp add: addStandup_def Let_def utc_window [OF assms(1)] sqlLocaltime_def assms(1))
qed

text \<open>
  Completion by a text answer, whatever the database does: the session and the answer
  buffer of the participant are gone.
\<close>

lemma onMessage_completion_clears:
  assumes "\<not> startsWithSlash (m_text msg)" "channelMember e (m_from msg)"
    "userStates w (m_from msg) = Some 2"
  shows "userStates (onMessage e msg w) (m_from msg) = None
       \<and> standupResponses (onMessage e msg w) (m_from msg) = None"
proof -
  define r where "r = storeAnswer msg [] 2 (m_text msg) w"
  define w2 where "w2 = w\<lparr>standupResponses := (standupResponses w)(m_from msg \<mapsto> r),
                          userStates := (userStates w)(m_from msg := None)\<rparr>"
  define res where "res = addStandup e (m_from msg) (resp_username r) (jsGet (answers r) 0)
                         (jsGet (answers r) (Suc 0)) (jsGet (answers r) 2) w2"
  have om: "onMessage e msg w =
     (case res of
        (Some x, w3) \<Rightarrow>
          (send (Chat (m_chat msg)) ProcessingError w3)
            \<lparr>userStates := (userStates w3)(m_from msg := None),
             standupResponses := (standupResponses w3)(m_from msg := None)\<rparr>
      | (None, w3) \<Rightarrow>
          (send (Chat (m_chat msg)) ThankYou
             (send Channel (Summary (formatStandupResponse e r)) w3))
            \<lparr>standupResponses := (standupResponses w3)(m_from msg := None)\<rparr>)"
    unfolding res_def w2_def r_def
    using assms by (simp add: onMessage_def Let_def)
  have us: "userStates (snd res) = userStates w2"
    by (simp add: res_def addStandup_userStates)
  show ?thesis
    using us by (cases res; cases "fst res") (auto simp add: om send_def w2_def)
qed

text \<open>
  Claim C8 at a completion by \<open>/skip\<close>. nora is at the last question with two answers
  collected and the database refuses the write. Completing with a text answer removes the
  session and the answer buffer and tells her of the error. Completing with \<open>/skip\<close> removes
  the session, and the error leaves the handler: the answer buffer stays in the map and no
  message is sent. The same happens with the database up when her second answer was a
  photo: the INSERT is refused for the null \<open>today\<close>.
\<close>

theorem skip_completion_keeps_buffer:
  "onMessage ((envAt 1704272400000 0)\<lparr>dbDown := True\<rparr>) (fromNora (Some ''none''))
       (session 2 [Some ''rest'', Some ''work''])
     = (session 2 [Some ''rest'', Some ''work''])
         \<lparr>userStates := Map.empty, standupResponses := Map.empty,
          outbox := [Msg (Chat 7) ProcessingError]\<rparr>
   \<and> skipCommand ((envAt 1704272400000 0)\<lparr>dbDown := True\<rparr>) (fromNora (Some ''/skip''))
       (session 2 [Some ''rest'', Some ''work''])
     = (Some DbError,
        (session 2 [Some ''rest'', Some ''work''])
          \<lparr>userStates := Map.empty,
           standupResponses :=
             [7 \<mapsto> \<lparr>resp_username = ''nora'',
                      answers = [Some ''rest'', Some ''work'', Some []]\<rparr>]\<rparr>)
   \<and> fst (skipCommand (envAt 1704272490000 0) (fromNora (Some ''/skip'')) photoAtToday)
       = Some ConstraintError
   \<and> userStates
       (snd (skipCommand (envAt 1704272490000 0) (fromNora (Some ''/skip'')) photoAtToday)) 7
       = None
   \<and> standupResponses
       (snd (skipCommand (envAt 1704272490000 0) (fromNora (Some ''/skip'')) photoAtToday)) 7
       = Some \<lparr>resp_username = ''nora'', answers = [Some ''rest'', None, Some []]\<rparr>
   \<and> outbox (snd (skipCommand (envAt 1704272490000 0) (fromNora (Some ''/skip'')) photoAtToday))
       = outbox photoAtToday"
proof -
  have a: "onMessage ((envAt 1704272400000 0)\<lparr>dbDown := True\<rparr>) (fromNora (Some ''none''))
       (session 2 [Some ''rest'', Some ''work''])
     = (session 2 [Some ''rest'', Some ''work''])
         \<lparr>userStates := Map.empty, standupResponses := Map.empty,
          outbox := [Msg (Chat 7) ProcessingError]\<rparr>"
    by (simp add: envAt_def fromNora_def session_def emptyWorld_def storeAnswer_def jsSet_def
        jsGet_def addStandup_def Let_def onMessage_def startsWithSlash_def send_def)
  have b: "skipCommand ((envAt 1704272400000 0)\<lparr>dbDown := True\<rparr>) (fromNora (Some ''/skip''))
       (session 2 [Some ''rest'', Some ''work''])
     = (Some DbError,
        (session 2 [Some ''rest'', Some ''work''])
          \<lparr>userStates := Map.empty,
           standupResponses :=
             [7 \<mapsto> \<lparr>resp_username = ''nora'',
                      answers = [Some ''rest'', Some ''work'', Some []]\<rparr>]\<rparr>)"
    by (simp add: skipCommand_def commandGuard_def envAt_def fromNora_def session_def
        emptyWorld_def storeAnswer_def jsSet_def jsGet_def addStandup_def Let_def)
  have c: "fst (skipCommand (envAt 1704272490000 0) (fromNora (Some ''/skip'')) photoAtToday)
       = Some ConstraintError
   \<and> userStates
       (snd (skipCommand (envAt 1704272490000 0) (fromNora (Some ''/skip'')) photoAtToday)) 7
       = None
   \<and> standupResponses
       (snd (skipCommand (envAt 1704272490000 0) (fromNora (Some ''/skip'')) photoAtToday)) 7
       = Some \<lparr>resp_username = ''nora'', answers = [Some ''rest'', None, Some []]\<rparr>
   \<and> outbox (snd (skipCommand (envAt 1704272490000 0) (fromNora (Some ''/skip'')) photoAtToday))
       = outbox photoAtToday"
    by (simp add: photoAtToday_eq pendingLate_eq installed_eq emptyWorld_def skipCommand_def
        commandGuard_def envAt_def fromNora_def storeAnswer_def jsSet_def jsGet_def
        addStandup_def Let_def send_def)
  show ?thesis
    by (rule conjI [OF a conjI [OF b c]])
qed

subsection \<open>The late-reminder check\<close>

text \<open>
  When the checks of a day run one after the other, the debounce works: over two runs on
  the same local day a participant is sent at most one late reminder and the records of the
  day stay at most one, and a participant with a record of the day is sent nothing.
\<close>

lemma sequential_checks_debounced:
  assumes "utcOffsetMin e2 = utcOffsetMin e1" and "sqlToday e2 = sqlToday e1"
  shows "lateRemindersSent uid (lateReminderJob e2 (lateReminderJob e1 w))
           \<le> lateRemindersSent uid w + 1
       \<and> recordsToday e2 uid (lateReminderJob e2 (lateReminderJob e1 w))
           \<le> max 1 (recordsToday e1 uid w)
       \<and> (hasReceivedLateReminderToday e1 w uid \<longrightarrow>
            lateRemindersSent uid (lateReminderJob e1 w) = lateRemindersSent uid w)"
proof -
  have 1: "debounced e1 uid w (lateReminderJob e1 w)"
    by (rule lateReminderJob_debounced)
  have "debounced e2 uid (lateReminderJob e1 w) (lateReminderJob e2 (lateReminderJob e1 w))"
    by (rule lateReminderJob_debounced)
  then have 2:
    "debounced e1 uid (lateReminderJob e1 w) (lateReminderJob e2 (lateReminderJob e1 w))"
    unfolding debounced_env [OF assms] .
  have 3: "debounced e1 uid w (lateReminderJob e2 (lateReminderJob e1 w))"
    by (rule debounced_trans [OF 1 2])
  have r: "recordsToday e2 uid = recordsToday e1 uid"
    using assms by (simp add: recordsToday_def sqlLocaltime_def fun_eq_iff)
  have a: "lateRemindersSent uid (lateReminderJob e2 (lateReminderJob e1 w))
           \<le> lateRemindersSent uid w + 1"
    using 3 by (auto simp add: debounced_def)
  have b: "recordsToday e2 uid (lateReminderJob e2 (lateReminderJob e1 w))
           \<le> max 1 (recordsToday e1 uid w)"
    using 3 by (simp add: debounced_def r)
  have c: "hasReceivedLateReminderToday e1 w uid \<longrightarrow>
            lateRemindersSent uid (lateReminderJob e1 w) = lateRemindersSent uid w"
    using 1 by (auto simp add: debounced_def hasReceived_iff)
  show ?thesis
    by (rule conjI [OF a conjI [OF b c]])
qed

text \<open>
  Claim C6 at two checks that are live at once. After the trigger of 09:00 an administrator
  moves the standup to 10:00 and sets the delay to 3 hours; the recurring job fires again at
  10:00, and two late checks are pending for 13:00. At 13:00 both callbacks start and their
  turns alternate: each reads that nora has no record of the day before either has written
  one, so both send her a late reminder and both write a record: two reminders and two
  records on one day. Run one after the other, the second callback finds the record of the
  first and skips her.
\<close>

theorem overlapping_late_checks_remind_twice:
  "dateJobs twoChecksPending = [1704286800000, 1704286800000]
   \<and> startLateChecks (envAt 1704286800000 0) twoChecksPending
       = ([AtCleanup, AtCleanup], twoChecksPending\<lparr>dateJobs := []\<rparr>)
   \<and> lateRemindersSent 7 twoChecksPending = 0
   \<and> recordsToday (envAt 1704286800000 0) 7 twoChecksPending = 0
   \<and> runLateChecks (envAt 1704286800000 0) lockstep [AtCleanup, AtCleanup]
         (twoChecksPending\<lparr>dateJobs := []\<rparr>)
       = ([Finished, Finished],
          twoChecksPending\<lparr>dateJobs := [],
            late_reminders := [\<lparr>r_user_id = 7, sent_at = 1704286800\<rparr>,
                               \<lparr>r_user_id = 7, sent_at = 1704286800\<rparr>],
            outbox := outbox twoChecksPending
                      @ [Msg (Chat 7) (Reminder True), Msg (Chat 7) (Reminder True)]\<rparr>)
   \<and> lateRemindersSent 7
       (snd (runLateChecks (envAt 1704286800000 0) lockstep [AtCleanup, AtCleanup]
               (twoChecksPending\<lparr>dateJobs := []\<rparr>))) = 2
   \<and> recordsToday (envAt 1704286800000 0) 7
       (snd (runLateChecks (envAt 1704286800000 0) lockstep [AtCleanup, AtCleanup]
               (twoChecksPending\<lparr>dateJobs := []\<rparr>))) = 2
   \<and> runLateChecks (envAt 1704286800000 0) inTurn [AtCleanup, AtCleanup]
         (twoChecksPending\<lparr>dateJobs := []\<rparr>)
       = ([Finished, Finished],
          twoChecksPending\<lparr>dateJobs := [],
            late_reminders := [\<lparr>r_user_id = 7, sent_at = 1704286800\<rparr>],
            outbox := outbox twoChecksPending @ [Msg (Chat 7) (Reminder True)]\<rparr>)"
proof -
  have a: "runLateChecks (envAt 1704286800000 0) lockstep [AtCleanup, AtCleanup]
         (twoChecksPending\<lparr>dateJobs := []\<rparr>)
       = ([Finished, Finished],
          twoChecksPending\<lparr>dateJobs := [],
            late_reminders := [\<lparr>r_user_id = 7, sent_at = 1704286800\<rparr>,
                               \<lparr>r_user_id = 7, sent_at = 1704286800\<rparr>],
            outbox := outbox twoChecksPending
                      @ [Msg (Chat 7) (Reminder True), Msg (Chat 7) (Reminder True)]\<rparr>)"
    by (simp add: lockstep_def twoChecksPending_eq retimed_eq pendingLate_eq installed_eq
        emptyWorld_def envAt_def cleanupOldLateReminders_def missingStandups_def
        getStandupStatus_def todayStandups_def getSubscriberByUsername_def nora_def
        hasReceivedLateReminderToday_def sqlToday_def sqlNow_def sqlDate_def sqlLocaltime_def
        sendReminder_def send_def recordLateReminder_def)
  have b: "runLateChecks (envAt 1704286800000 0) inTurn [AtCleanup, AtCleanup]
         (twoChecksPending\<lparr>dateJobs := []\<rparr>)
       = ([Finished, Finished],
          twoChecksPending\<lparr>dateJobs := [],
            late_reminders := [\<lparr>r_user_id = 7, sent_at = 1704286800\<rparr>],
            outbox := outbox twoChecksPending @ [Msg (Chat 7) (Reminder True)]\<rparr>)"
    by (simp add: inTurn_def twoChecksPending_eq retimed_eq pendingLate_eq installed_eq
        emptyWorld_def envAt_def cleanupOldLateReminders_def missingStandups_def
        getStandupStatus_def todayStandups_def getSubscriberByUsername_def nora_def
        hasReceivedLateReminderToday_def sqlToday_def sqlNow_def sqlDate_def sqlLocaltime_def
        sendReminder_def send_def recordLateReminder_def)
  have c: "dateJobs twoChecksPending = [1704286800000, 1704286800000]
      \<and> startLateChecks (envAt 1704286800000 0) twoChecksPending
          = ([AtCleanup, AtCleanup], twoChecksPending\<lparr>dateJobs := []\<rparr>)
      \<and> lateRemindersSent 7 twoChecksPending = 0
      \<and> recordsToday (envAt 1704286800000 0) 7 twoChecksPending = 0"
    by (simp add: startLateChecks_def twoChecksPending_eq retimed_eq pendingLate_eq installed_eq
        emptyWorld_def envAt_def lateRemindersSent_def recordsToday_def)
  have d: "lateRemindersSent 7
       (snd (runLateChecks (envAt 1704286800000 0) lockstep [AtCleanup, AtCleanup]
               (twoChecksPending\<lparr>dateJobs := []\<rparr>))) = 2
      \<and> recordsToday (envAt 1704286800000 0) 7
       (snd (runLateChecks (envAt 1704286800000 0) lockstep [AtCleanup, AtCleanup]
               (twoChecksPending\<lparr>dateJobs := []\<rparr>))) = 2"
    unfolding a
    by (simp add: twoChecksPending_eq retimed_eq pendingLate_eq installed_eq emptyWorld_def
        envAt_def lateRemindersSent_def recordsToday_def sqlToday_def sqlNow_def sqlDate_def
        sqlLocaltime_def)
  from a b c d show ?thesis by simp
qed

text \<open>
  Claim C7. With late reminders enabled, \<open>scheduleLateReminders\<close> installs one job, at the
  instant of today's trigger time plus the configured hours, provided that instant is still
  ahead. It is ahead when the call comes from the recurring job firing at the trigger time
  with a configured delay of at least one hour: that run of the recurring job installs the
  late check for trigger time plus delay (09:00 and 4 hours give 13:00). With late reminders
  disabled nothing is installed.
\<close>

theorem late_check_time:
  "(\<not> dbDown e \<and> late_reminder_enabled w
      \<and> now e < localMidnight e + int hour * 3600000 + int minute * 60000
                  + int (late_reminder_hours w) * 3600000
     \<longrightarrow> dateJobs (scheduleLateReminders e hour minute w)
           = dateJobs w @ [localMidnight e + int hour * 3600000 + int minute * 60000
                            + int (late_reminder_hours w) * 3600000])
   \<and> (\<not> dbDown e \<and> late_reminder_enabled w \<and> cronFires e j \<and> 0 < late_reminder_hours w
     \<longrightarrow> dateJobs (standupJobRun e j w)
           = dateJobs w @ [localMidnight e + int (job_hour j) * 3600000
                            + int (job_minute j) * 60000
                            + int (late_reminder_hours w) * 3600000])
   \<and> (\<not> late_reminder_enabled w \<longrightarrow>
        scheduleLateReminders e hour minute w = w
        \<and> dateJobs (standupJobRun e j w) = dateJobs w)"
  using cron_before_late [of e j "late_reminder_hours w"]
  by (auto simp add: scheduleLateReminders_def standupJobRun_def standupLoop_dateJobs
      askFirst_dateJobs Let_def)

theorem late_check_time_witness:
  "cronFires (envAt 1704272400000 0) \<lparr>job_id = 0, job_hour = 9, job_minute = 0\<rparr>
   \<and> localMidnight (envAt 1704272400000 0) = 1704240000000
   \<and> dateJobs (scheduleLateReminders (envAt 1704272400000 0) 9 0 emptyWorld)
       = [1704240000000 + 13 * 3600000]
   \<and> dateJobs (standupJobRun (envAt 1704272400000 0)
                 \<lparr>job_id = 0, job_hour = 9, job_minute = 0\<rparr> emptyWorld)
       = [1704240000000 + 13 * 3600000]
   \<and> scheduleLateReminders (envAt 1704272400000 0) 9 0
         (emptyWorld\<lparr>late_reminder_enabled := False\<rparr>)
       = emptyWorld\<lparr>late_reminder_enabled := False\<rparr>"
  using late_check_time [of "envAt 1704272400000 0" emptyWorld 9 0
      "\<lparr>job_id = 0, job_hour = 9, job_minute = 0\<rparr>"]
    late_check_time [of "envAt 1704272400000 0" "emptyWorld\<lparr>late_reminder_enabled := False\<rparr>"
      9 0 "\<lparr>job_id = 0, job_hour = 9, job_minute = 0\<rparr>"]
  by (simp add: envAt_def emptyWorld_def localMs_def localMidnight_def cronFires_def)

subsection \<open>Reconfiguration by an administrator\<close>



lemma scheduleStandups_jobsOwned:
  "jobsOwned w \<Longrightarrow> jobsOwned (snd (scheduleStandups e w))"
  by (auto simp add: jobsOwned_def scheduleStandups_def scheduleStandupsBegin_def
      scheduleStandupsFinish_def cancelJob_def Let_def split: option.splits)

lemma jobsOwned_at_start: "jobsOwned emptyWorld"
  by (simp add: jobsOwned_def emptyWorld_def)



text \<open>
  Two changes of the trigger time whose handlers both end before either rescheduling
  continues: each continuation installs a job, and the first is never cancelled.
\<close>

lemma overlapping_set_time_two_jobs:
  "cronJobs raced = [\<lparr>job_id = 1, job_hour = 11, job_minute = 0\<rparr>,
                     \<lparr>job_id = 2, job_hour = 11, job_minute = 0\<rparr>]
   \<and> standupJob raced = Some \<lparr>job_id = 2, job_hour = 11, job_minute = 0\<rparr>"
  by (simp add: raced_def pendingLate_eq installed_eq emptyWorld_def setTimeCommand_def
      commandGuard_def envAt_def fromNora_def isAdmin_def getSubscriber_def nora_def
      setStandupTime_def scheduleStandupsBegin_def cancelJob_def scheduleStandupsFinish_def
      send_def Let_def)

subsection \<open>The participant's timezone\<close>

text \<open>
  Claim C10, as stated, fails where the stored timezone is the empty string: the row exists,
  its timezone is not null, and the query answers Europe/Lisbon, not the stored string.
\<close>

theorem getUserTimezone_empty_counterexample:
  "getSubscriber (emptyWorld\<lparr>subscriptions := [nora\<lparr>timezone := Some []\<rparr>]\<rparr>) 7
     = Some (nora\<lparr>timezone := Some []\<rparr>)
   \<and> timezone (nora\<lparr>timezone := Some []\<rparr>) \<noteq> None
   \<and> getUserTimezone (emptyWorld\<lparr>subscriptions := [nora\<lparr>timezone := Some []\<rparr>]\<rparr>) 7
       \<noteq> the (timezone (nora\<lparr>timezone := Some []\<rparr>))"
  by (simp add: getSubscriber_def getUserTimezone_def orDefault_def nora_def emptyWorld_def)

text \<open>
  Claim C10, amended. Querying a participant's timezone answers Europe/Lisbon when no
  subscription row has the identifier, or when the timezone of the row is null or the empty
  string; otherwise it answers the stored timezone.
\<close>

theorem getUserTimezone_fallback:
  "(uid \<notin> user_id ` set (subscriptions w) \<longrightarrow> getUserTimezone w uid = ''Europe/Lisbon'')
   \<and> (\<forall>r. getSubscriber w uid = Some r \<and> (timezone r = None \<or> timezone r = Some [])
          \<longrightarrow> getUserTimezone w uid = ''Europe/Lisbon'')
   \<and> (\<forall>r tz. getSubscriber w uid = Some r \<and> timezone r = Some tz \<and> tz \<noteq> []
          \<longrightarrow> getUserTimezone w uid = tz)"
  using getSubscriber_None_iff [of w uid]
  by (auto simp add: getUserTimezone_def orDefault_def)

theorem getUserTimezone_fallback_witness:
  "getUserTimezone emptyWorld 7 = ''Europe/Lisbon''
   \<and> getUserTimezone (emptyWorld\<lparr>subscriptions := [nora]\<rparr>) 7 = ''Europe/Lisbon''
   \<and> getUserTimezone
       (emptyWorld\<lparr>subscriptions := [nora\<lparr>timezone := Some ''America/New_York''\<rparr>]\<rparr>) 7
       = ''America/New_York''"
  using getUserTimezone_fallback [of 7 emptyWorld]
    getUserTimezone_fallback [of 7 "emptyWorld\<lparr>subscriptions := [nora]\<rparr>"]
    getUserTimezone_fallback
      [of 7 "emptyWorld\<lparr>subscriptions := [nora\<lparr>timezone := Some ''America/New_York''\<rparr>]\<rparr>"]
  by (simp add: getSubscriber_def nora_def emptyWorld_def)

end
